theory Spec2Isabelle
  imports Complex_Main "HOL-Library.Sublist" "HOL-Library.Code_Target_Numeral"
begin

section \<open>Values of the program\<close>

text \<open>
  The program is the body of \<^verbatim>\<open>fetchStockData\<close> in \<^verbatim>\<open>src/App.js\<close>, from the point
  where the parsed chart response is at hand (line 51) to the call of \<^verbatim>\<open>setResults\<close>
  (line 142). The network request, the React state and the chart sample (lines 60 to 70)
  are not part of the model; the chart loop reads the same arrays and throws only where
  \<^verbatim>\<open>timestamps.length\<close> does. The investment is the number that \<^verbatim>\<open>parseFloat\<close> returns
  (line 58); the test of line 26 is on the text of the input field, which is not empty for
  an investment of zero.

  A JavaScript number is a NaN, an infinity (the flag says whether it is negative) or a finite
  value, which is kept as the real number that the double stands for. The sign of zero is
  not modelled, and a zero divisor counts as \<open>+0\<close>: \<^verbatim>\<open>toFixed\<close> prints \<open>-0\<close> as it prints
  \<open>0\<close>, both zeros are falsy, and of the two divisors of the program the adjusted baseline
  is not a zero where line 120 is reached, while a zero investment divides a zero or NaN
  profit, which gives NaN for either sign.
\<close>

datatype number = NaN | Infinity bool | Fin real

text \<open>
  An element read from one of the response's arrays is a number or \<^verbatim>\<open>null\<close>; reading past
  the end of an array gives \<^verbatim>\<open>undefined\<close>.
\<close>

datatype jsval = Undefined | Null | Num number

datatype error = TypeError

fun truthy :: "jsval \<Rightarrow> bool" where
  "truthy (Num (Fin x)) = (x \<noteq> 0)"
| "truthy (Num (Infinity _)) = True"
| "truthy (Num NaN) = False"
| "truthy Null = False"
| "truthy Undefined = False"

fun ToNumber :: "jsval \<Rightarrow> number" where
  "ToNumber Undefined = NaN"
| "ToNumber Null = Fin 0"
| "ToNumber (Num n) = n"

definition elemAt :: "jsval list \<Rightarrow> nat \<Rightarrow> jsval" where
  "elemAt xs i = (if i < length xs then xs ! i else Undefined)"

subsection \<open>Rounding to a double\<close>

text \<open>
  The sum, difference, product and quotient of two doubles are the exact results rounded to
  the nearest double, to the one with an even mantissa on a tie (IEEE 754 binary64). A
  double has a mantissa of 53 bits; its exponent is at least \<open>-1022\<close>, below which the
  spacing of the doubles stays \<open>2 ^ -1074\<close>, and a result of magnitude
  \<open>2 ^ 1024 - 2 ^ 970\<close> or more rounds to an infinity.
\<close>

text \<open>The number of binary digits of \<open>n\<close>.\<close>

fun bits :: "nat \<Rightarrow> nat" where
  "bits n = (if n = 0 then 0 else Suc (bits (n div 2)))"

declare bits.simps [simp del]

text \<open>The binary exponent of \<open>a > 0\<close>: the \<open>k\<close> with \<open>2 ^ k \<le> a < 2 ^ (k + 1)\<close>.\<close>

definition exponent :: "real \<Rightarrow> int" where
  "exponent a = (if 1 \<le> a then int (bits (nat \<lfloor>a\<rfloor>)) - 1
                 else - int (bits (nat \<lceil>1 / a\<rceil> - 1)))"

definition pow2 :: "int \<Rightarrow> real" where
  "pow2 k = (if 0 \<le> k then 2 ^ nat k else 1 / 2 ^ nat (- k))"

definition roundEven :: "real \<Rightarrow> int" where
  "roundEven x =
     (let f = \<lfloor>x\<rfloor>; d = x - of_int f
      in if d < 1 / 2 then f else if 1 / 2 < d then f + 1 else if even f then f else f + 1)"

definition roundDouble :: "real \<Rightarrow> number" where
  "roundDouble x =
     (if x = 0 then Fin 0
      else if pow2 1024 - pow2 970 \<le> \<bar>x\<bar> then Infinity (x < 0)
      else
        (let q = pow2 (max (exponent \<bar>x\<bar>) (- 1022) - 52);
             v = of_int (roundEven (\<bar>x\<bar> / q)) * q
         in Fin (if x < 0 then - v else v)))"

subsection \<open>Arithmetic on numbers\<close>

text \<open>The operators \<^verbatim>\<open>+\<close>, \<^verbatim>\<open>-\<close>, \<^verbatim>\<open>*\<close> and \<^verbatim>\<open>/\<close> on numbers.\<close>

fun num_add :: "number \<Rightarrow> number \<Rightarrow> number" where
  "num_add (Fin a) (Fin b) = roundDouble (a + b)"
| "num_add NaN _ = NaN"
| "num_add _ NaN = NaN"
| "num_add (Infinity s) (Infinity t) = (if s = t then Infinity s else NaN)"
| "num_add (Infinity s) (Fin _) = Infinity s"
| "num_add (Fin _) (Infinity t) = Infinity t"

fun num_sub :: "number \<Rightarrow> number \<Rightarrow> number" where
  "num_sub (Fin a) (Fin b) = roundDouble (a - b)"
| "num_sub NaN _ = NaN"
| "num_sub _ NaN = NaN"
| "num_sub (Infinity s) (Infinity t) = (if s = t then NaN else Infinity s)"
| "num_sub (Infinity s) (Fin _) = Infinity s"
| "num_sub (Fin _) (Infinity t) = Infinity (\<not> t)"

fun num_mul :: "number \<Rightarrow> number \<Rightarrow> number" where
  "num_mul (Fin a) (Fin b) = roundDouble (a * b)"
| "num_mul NaN _ = NaN"
| "num_mul _ NaN = NaN"
| "num_mul (Infinity s) (Infinity t) = Infinity (s \<noteq> t)"
| "num_mul (Infinity s) (Fin b) = (if b = 0 then NaN else Infinity (s \<noteq> (b < 0)))"
| "num_mul (Fin a) (Infinity t) = (if a = 0 then NaN else Infinity ((a < 0) \<noteq> t))"

fun num_div :: "number \<Rightarrow> number \<Rightarrow> number" where
  "num_div (Fin a) (Fin b) =
     (if b = 0 then (if a = 0 then NaN else Infinity (a < 0)) else roundDouble (a / b))"
| "num_div NaN _ = NaN"
| "num_div _ NaN = NaN"
| "num_div (Infinity s) (Infinity t) = NaN"
| "num_div (Infinity s) (Fin b) = Infinity (s \<noteq> (b < 0))"
| "num_div (Fin _) (Infinity _) = Fin 0"

subsection \<open>Arithmetic on times\<close>

text \<open>
  The timestamps, the clock, the days of a period and the years are whole numbers far below
  \<open>2 ^ 53\<close>. On such numbers the sum, the difference and the product of doubles are exact, so
  the same operators are written without rounding where the program computes with times
  (lines 74 and 102 to 107); lemma \<open>time_arithmetic_exact\<close> below shows that they agree
  with the rounding ones there.
\<close>

fun time_add :: "number \<Rightarrow> number \<Rightarrow> number" where
  "time_add (Fin a) (Fin b) = Fin (a + b)"
| "time_add NaN _ = NaN"
| "time_add _ NaN = NaN"
| "time_add (Infinity s) (Infinity t) = (if s = t then Infinity s else NaN)"
| "time_add (Infinity s) (Fin _) = Infinity s"
| "time_add (Fin _) (Infinity t) = Infinity t"

fun time_sub :: "number \<Rightarrow> number \<Rightarrow> number" where
  "time_sub (Fin a) (Fin b) = Fin (a - b)"
| "time_sub NaN _ = NaN"
| "time_sub _ NaN = NaN"
| "time_sub (Infinity s) (Infinity t) = (if s = t then NaN else Infinity s)"
| "time_sub (Infinity s) (Fin _) = Infinity s"
| "time_sub (Fin _) (Infinity t) = Infinity (\<not> t)"

fun time_mul :: "number \<Rightarrow> number \<Rightarrow> number" where
  "time_mul (Fin a) (Fin b) = Fin (a * b)"
| "time_mul NaN _ = NaN"
| "time_mul _ NaN = NaN"
| "time_mul (Infinity s) (Infinity t) = Infinity (s \<noteq> t)"
| "time_mul (Infinity s) (Fin b) = (if b = 0 then NaN else Infinity (s \<noteq> (b < 0)))"
| "time_mul (Fin a) (Infinity t) = (if a = 0 then NaN else Infinity ((a < 0) \<noteq> t))"

subsection \<open>Absolute value and comparison\<close>

text \<open>\<^verbatim>\<open>Math.abs\<close>, \<^verbatim>\<open><\<close> and \<^verbatim>\<open>>=\<close>, none of which rounds.\<close>

fun num_abs :: "number \<Rightarrow> number" where
  "num_abs NaN = NaN"
| "num_abs (Infinity _) = Infinity False"
| "num_abs (Fin a) = Fin \<bar>a\<bar>"

fun num_lt :: "number \<Rightarrow> number \<Rightarrow> bool" where
  "num_lt (Fin a) (Fin b) = (a < b)"
| "num_lt NaN _ = False"
| "num_lt _ NaN = False"
| "num_lt (Infinity s) (Infinity t) = (s \<and> \<not> t)"
| "num_lt (Infinity s) (Fin _) = s"
| "num_lt (Fin _) (Infinity t) = (\<not> t)"

fun num_ge :: "number \<Rightarrow> number \<Rightarrow> bool" where
  "num_ge (Fin a) (Fin b) = (a \<ge> b)"
| "num_ge NaN _ = False"
| "num_ge _ NaN = False"
| "num_ge (Infinity s) (Infinity t) = (\<not> s \<or> t)"
| "num_ge (Infinity s) (Fin _) = (\<not> s)"
| "num_ge (Fin _) (Infinity t) = t"

subsection \<open>\<^verbatim>\<open>Number.prototype.toFixed\<close>\<close>

text \<open>
  \<^verbatim>\<open>x.toFixed(f)\<close> prints \<open>x\<close> with \<open>f\<close> digits after the point: below \<open>10 ^ 21\<close> the
  integer \<open>n\<close> for which \<open>n / 10 ^ f\<close> is nearest to \<open>\<bar>x\<bar>\<close> (the larger one on a tie) is
  written in decimal, padded with zeros to at least \<open>f + 1\<close> digits, and the point is put
  before the last \<open>f\<close> digits. From \<open>10 ^ 21\<close> on the result is that of
  \<^verbatim>\<open>Number.prototype.toString\<close>, in exponent notation.
\<close>

definition digit :: "nat \<Rightarrow> char" where
  "digit d = ''0123456789'' ! d"

fun digits :: "nat \<Rightarrow> string" where
  "digits n = (if n < 10 then [digit n] else digits (n div 10) @ [digit (n mod 10)])"

declare digits.simps [simp del]

definition fixedInt :: "real \<Rightarrow> nat \<Rightarrow> nat" where
  "fixedInt r f = nat \<lfloor>\<bar>r\<bar> * 10 ^ f + 1 / 2\<rfloor>"

definition pointed :: "string \<Rightarrow> nat \<Rightarrow> string" where
  "pointed m f =
     (let m = (if length m \<le> f then replicate (f + 1 - length m) (CHR ''0'') @ m else m);
          k = length m
      in if f \<noteq> 0 then take (k - f) m @ ''.'' @ drop (k - f) m else m)"

text \<open>
  \<^verbatim>\<open>toString\<close> of a double \<open>x \<ge> 10 ^ 21\<close>, which is a whole number: the digits are those of
  the shortest decimal \<open>s * 10 ^ p\<close> that rounds to \<open>x\<close>, the nearest to \<open>x\<close> where several of
  that length do. For \<open>k\<close> digits the two neighbours of \<open>x\<close> with \<open>k\<close> digits are tried, the
  nearer first (the even one on a tie), for \<open>k\<close> from 1 to 17, which is always enough for a
  double.
\<close>

definition candidates :: "nat \<Rightarrow> nat \<Rightarrow> nat list" where
  "candidates xi p =
     (let lo = xi div 10 ^ p; r = xi mod 10 ^ p
      in if 2 * r < 10 ^ p \<or> (2 * r = 10 ^ p \<and> even lo) then [lo, lo + 1] else [lo + 1, lo])"

fun shortest :: "real \<Rightarrow> nat \<Rightarrow> nat list \<Rightarrow> nat \<times> nat" where
  "shortest x n0 [] = (nat \<lfloor>x\<rfloor>, 0)"
| "shortest x n0 (k # ks) =
     (case filter (\<lambda>c. roundDouble (real (c * 10 ^ (n0 - k))) = Fin x)
             (candidates (nat \<lfloor>x\<rfloor>) (n0 - k)) of
        c # _ \<Rightarrow> (c, n0 - k)
      | [] \<Rightarrow> shortest x n0 ks)"

definition stripZeros :: "string \<Rightarrow> string" where
  "stripZeros ds = rev (dropWhile (\<lambda>c. c = CHR ''0'') (rev ds))"

definition bigString :: "real \<Rightarrow> string" where
  "bigString x =
     (let n0 = length (digits (nat \<lfloor>x\<rfloor>));
          sp = shortest x n0 [1..<18];
          ds = digits (fst sp);
          n = length ds + snd sp;
          m = stripZeros ds
      in (if length m \<le> 1 then m else take 1 m @ ''.'' @ drop 1 m) @ ''e+'' @ digits (n - 1))"

fun toFixed :: "number \<Rightarrow> nat \<Rightarrow> string" where
  "toFixed NaN f = ''NaN''"
| "toFixed (Infinity neg) f = (if neg then ''-Infinity'' else ''Infinity'')"
| "toFixed (Fin r) f =
     (if r < 0 then ''-'' else '''')
       @ (if 10 ^ 21 \<le> \<bar>r\<bar> then bigString \<bar>r\<bar> else pointed (digits (fixedInt r f)) f)"

text \<open>The method call \<^verbatim>\<open>v.toFixed(f)\<close> on a value: a TypeError on \<^verbatim>\<open>null\<close> and
  \<^verbatim>\<open>undefined\<close>.\<close>

fun callToFixed :: "jsval \<Rightarrow> nat \<Rightarrow> error + string" where
  "callToFixed (Num n) f = Inr (toFixed n f)"
| "callToFixed Null f = Inl TypeError"
| "callToFixed Undefined f = Inl TypeError"

section \<open>The clock and the calendar\<close>

text \<open>
  What the program reads from its environment: \<open>endDate\<close> is
  \<^verbatim>\<open>Math.floor(Date.now() / 1000)\<close> (line 36), \<open>currentYear\<close> is
  \<^verbatim>\<open>new Date().getFullYear()\<close> (line 74) and \<open>LocalTZA\<close> gives the offset of local time
  from UTC, in seconds, at a local time in seconds.
\<close>

record env =
  endDate :: int
  currentYear :: int
  LocalTZA :: "int \<Rightarrow> int"

definition DayFromYear :: "int \<Rightarrow> int" where
  "DayFromYear y =
     365 * (y - 1970) + (y - 1969) div 4 - (y - 1901) div 100 + (y - 1601) div 400"

definition InLeapYear :: "int \<Rightarrow> bool" where
  "InLeapYear y = (y mod 4 = 0 \<and> (y mod 100 \<noteq> 0 \<or> y mod 400 = 0))"

definition monthStart :: "int \<Rightarrow> nat \<Rightarrow> int" where
  "monthStart y mn =
     [0, 31, 59, 90, 120, 151, 181, 212, 243, 273, 304, 334] ! mn
       + (if InLeapYear y \<and> 2 \<le> mn then 1 else 0)"

definition MakeDay :: "int \<Rightarrow> int \<Rightarrow> int \<Rightarrow> int" where
  "MakeDay year month date =
     (let ym = year + month div 12; mn = nat (month mod 12)
      in DayFromYear ym + monthStart ym mn + date - 1)"

definition ToInteger :: "real \<Rightarrow> int" where
  "ToInteger y = (if 0 \<le> y then \<lfloor>y\<rfloor> else \<lceil>y\<rceil>)"

text \<open>\<^verbatim>\<open>new Date(year, month, date).getTime() / 1000\<close>: midnight of that day in local time,
  in seconds since the epoch; NaN when the year is not finite.\<close>

fun newDate :: "env \<Rightarrow> number \<Rightarrow> int \<Rightarrow> int \<Rightarrow> number" where
  "newDate e (Fin y) month date =
     (let yi = ToInteger y;
          yr = (if 0 \<le> yi \<and> yi \<le> 99 then 1900 + yi else yi);
          t = MakeDay yr month date * 86400
      in Fin (of_int (t - LocalTZA e t)))"
| "newDate e NaN month date = NaN"
| "newDate e (Infinity _) month date = NaN"

section \<open>The periods\<close>

record period_spec =
  label :: string
  days :: jsval
  years :: jsval
  useYearAvg :: bool

text \<open>The labels are Korean; they are kept as the bytes of their UTF-8 encoding.\<close>

definition ju_il :: string where
  "ju_il = [CHR 0xEC, CHR 0xA3, CHR 0xBC, CHR 0xEC, CHR 0x9D, CHR 0xBC]"

definition gae_wol :: string where
  "gae_wol = [CHR 0xEA, CHR 0xB0, CHR 0x9C, CHR 0xEC, CHR 0x9B, CHR 0x94]"

definition nyeon :: string where
  "nyeon = [CHR 0xEB, CHR 0x85, CHR 0x84]"

definition jeon :: string where
  "jeon = [CHR 0x20, CHR 0xEC, CHR 0xA0, CHR 0x84]"

definition PERIODS :: "period_spec list" where
  "PERIODS =
    [\<lparr>label = ''1'' @ ju_il @ jeon, days = Num (Fin 7), years = Undefined, useYearAvg = False\<rparr>,
     \<lparr>label = ''1'' @ gae_wol @ jeon, days = Num (Fin 30), years = Undefined, useYearAvg = False\<rparr>,
     \<lparr>label = ''3'' @ gae_wol @ jeon, days = Num (Fin 90), years = Undefined, useYearAvg = False\<rparr>,
     \<lparr>label = ''6'' @ gae_wol @ jeon, days = Num (Fin 180), years = Undefined, useYearAvg = False\<rparr>,
     \<lparr>label = ''1'' @ nyeon @ jeon, days = Num (Fin 365), years = Undefined, useYearAvg = False\<rparr>,
     \<lparr>label = ''2'' @ nyeon @ jeon, days = Undefined, years = Num (Fin 2), useYearAvg = True\<rparr>,
     \<lparr>label = ''3'' @ nyeon @ jeon, days = Undefined, years = Num (Fin 3), useYearAvg = True\<rparr>,
     \<lparr>label = ''5'' @ nyeon @ jeon, days = Undefined, years = Num (Fin 5), useYearAvg = True\<rparr>,
     \<lparr>label = ''10'' @ nyeon @ jeon, days = Undefined, years = Num (Fin 10), useYearAvg = True\<rparr>]"

section \<open>The baseline of a period\<close>

subsection \<open>\<^verbatim>\<open>getYearAveragePrice\<close> (lines 73 to 88)\<close>

text \<open>The test of line 80 on the point at index \<open>i\<close>.\<close>

definition qualifies ::
  "int list \<Rightarrow> jsval list \<Rightarrow> jsval list \<Rightarrow> number \<Rightarrow> number \<Rightarrow> nat \<Rightarrow> bool" where
  "qualifies timestamps prices rawPrices yearStart yearEnd i =
     (num_ge (Fin (of_int (timestamps ! i))) yearStart
      \<and> num_ge yearEnd (Fin (of_int (timestamps ! i)))
      \<and> truthy (elemAt prices i) \<and> truthy (elemAt rawPrices i))"

definition yearStep ::
  "int list \<Rightarrow> jsval list \<Rightarrow> jsval list \<Rightarrow> number \<Rightarrow> number \<Rightarrow> nat
     \<Rightarrow> number \<times> number \<times> nat \<Rightarrow> number \<times> number \<times> nat" where
  "yearStep timestamps prices rawPrices yearStart yearEnd i acc =
     (case acc of (adjSum, rawSum, count) \<Rightarrow>
        if qualifies timestamps prices rawPrices yearStart yearEnd i
        then (num_add adjSum (ToNumber (elemAt prices i)),
              num_add rawSum (ToNumber (elemAt rawPrices i)), count + 1)
        else (adjSum, rawSum, count))"

text \<open>Lines 74 to 76: the target year and the two ends of the window.\<close>

definition targetYear :: "env \<Rightarrow> jsval \<Rightarrow> number" where
  "targetYear e yearsAgo = time_sub (Fin (of_int (currentYear e))) (ToNumber yearsAgo)"

definition yearStart :: "env \<Rightarrow> jsval \<Rightarrow> number" where
  "yearStart e yearsAgo = newDate e (targetYear e yearsAgo) 0 1"

definition yearEnd :: "env \<Rightarrow> jsval \<Rightarrow> number" where
  "yearEnd e yearsAgo = newDate e (targetYear e yearsAgo) 11 31"

definition getYearAveragePrice ::
  "env \<Rightarrow> int list \<Rightarrow> jsval list \<Rightarrow> jsval list \<Rightarrow> jsval \<Rightarrow> (number \<times> number) option" where
  "getYearAveragePrice e timestamps prices rawPrices yearsAgo =
     (case fold (yearStep timestamps prices rawPrices (yearStart e yearsAgo) (yearEnd e yearsAgo))
             [0..<length timestamps] (Fin 0, Fin 0, 0) of
        (adjSum, rawSum, count) \<Rightarrow>
          if count = 0 then None
          else Some (num_div adjSum (Fin (real count)), num_div rawSum (Fin (real count))))"

subsection \<open>The nearest point (lines 102 to 112)\<close>

definition closestStep ::
  "int list \<Rightarrow> jsval list \<Rightarrow> number \<Rightarrow> nat \<Rightarrow> nat \<times> number \<Rightarrow> nat \<times> number" where
  "closestStep timestamps prices targetTimestamp i st =
     (case st of (closestIndex, minDiff) \<Rightarrow>
        let diff = num_abs (time_sub (Fin (of_int (timestamps ! i))) targetTimestamp)
        in if num_lt diff minDiff \<and> truthy (elemAt prices i) then (i, diff)
           else (closestIndex, minDiff))"

definition closestScan :: "int list \<Rightarrow> jsval list \<Rightarrow> number \<Rightarrow> nat \<times> number" where
  "closestScan timestamps prices targetTimestamp =
     fold (closestStep timestamps prices targetTimestamp) [0..<length timestamps]
       (0, Infinity False)"

definition targetOf :: "env \<Rightarrow> jsval \<Rightarrow> number" where
  "targetOf e d =
     time_sub (Fin (of_int (endDate e)))
       (time_mul (time_mul (time_mul (ToNumber d) (Fin 24)) (Fin 60)) (Fin 60))"

subsection \<open>Both strategies (lines 92 to 115)\<close>

text \<open>The pair \<open>(pastAdjPrice, pastRawPrice)\<close> of a period, or \<open>None\<close> where the callback
  returns \<^verbatim>\<open>null\<close> at line 97.\<close>

definition baseline ::
  "env \<Rightarrow> int list \<Rightarrow> jsval list \<Rightarrow> jsval list \<Rightarrow> period_spec \<Rightarrow> (jsval \<times> jsval) option" where
  "baseline e timestamps prices rawPrices p =
     (if useYearAvg p then
        (case getYearAveragePrice e timestamps prices rawPrices (years p) of
           None \<Rightarrow> None
         | Some (adjAvg, rawAvg) \<Rightarrow> Some (Num adjAvg, Num rawAvg))
      else
        (let closestIndex = fst (closestScan timestamps prices (targetOf e (days p)))
         in Some (elemAt prices closestIndex, elemAt rawPrices closestIndex)))"

section \<open>The result of a period (lines 117 to 134)\<close>

record period_result =
  period :: string
  pastPrice :: string
  shares :: string
  currentValue :: string
  profit :: string
  profitRate :: string
  isProfit :: bool
  isYearAvg :: bool

text \<open>The part of the callback after the baseline: \<open>Inr None\<close> is the \<^verbatim>\<open>null\<close> of line 117,
  \<open>Inl\<close> the exception of \<^verbatim>\<open>pastRawPrice.toFixed(2)\<close>.\<close>

definition makeResult ::
  "number \<Rightarrow> jsval \<Rightarrow> period_spec \<Rightarrow> jsval \<Rightarrow> jsval \<Rightarrow> error + period_result option" where
  "makeResult investmentAmount cur p pastAdjPrice pastRawPrice =
     (if \<not> truthy pastAdjPrice then Inr None
      else
        (let sharesV = num_div investmentAmount (ToNumber pastAdjPrice);
             currentValueV = num_mul sharesV (ToNumber cur);
             profitV = num_sub currentValueV investmentAmount;
             profitRateV =
               num_mul (num_div (num_sub currentValueV investmentAmount) investmentAmount)
                 (Fin 100)
         in case callToFixed pastRawPrice 2 of
              Inl err \<Rightarrow> Inl err
            | Inr pp \<Rightarrow>
                Inr (Some \<lparr>period = label p, pastPrice = pp, shares = toFixed sharesV 4,
                           currentValue = toFixed currentValueV 2, profit = toFixed profitV 2,
                           profitRate = toFixed profitRateV 2,
                           isProfit = num_ge profitV (Fin 0), isYearAvg = useYearAvg p\<rparr>)))"

definition periodResult ::
  "env \<Rightarrow> number \<Rightarrow> int list \<Rightarrow> jsval list \<Rightarrow> jsval list \<Rightarrow> jsval \<Rightarrow> period_spec
     \<Rightarrow> error + period_result option" where
  "periodResult e investmentAmount timestamps prices rawPrices cur p =
     (case baseline e timestamps prices rawPrices p of
        None \<Rightarrow> Inr None
      | Some (pastAdjPrice, pastRawPrice) \<Rightarrow>
          makeResult investmentAmount cur p pastAdjPrice pastRawPrice)"

section \<open>All periods (lines 91 to 142)\<close>

text \<open>\<^verbatim>\<open>Array.prototype.map\<close> with a callback that may throw: the first exception ends
  the whole call.\<close>

fun mapThrow :: "('a \<Rightarrow> error + 'b) \<Rightarrow> 'a list \<Rightarrow> error + 'b list" where
  "mapThrow f [] = Inr []"
| "mapThrow f (x # xs) =
     (case f x of
        Inl err \<Rightarrow> Inl err
      | Inr y \<Rightarrow> (case mapThrow f xs of Inl err \<Rightarrow> Inl err | Inr ys \<Rightarrow> Inr (y # ys)))"

definition periodResults ::
  "env \<Rightarrow> number \<Rightarrow> int list \<Rightarrow> jsval list \<Rightarrow> jsval list \<Rightarrow> jsval \<Rightarrow> period_spec list
     \<Rightarrow> error + period_result list" where
  "periodResults e investmentAmount timestamps prices rawPrices cur ps =
     (case mapThrow (periodResult e investmentAmount timestamps prices rawPrices cur) ps of
        Inl err \<Rightarrow> Inl err
      | Inr rs \<Rightarrow> Inr (map the (filter (\<lambda>r. r \<noteq> None) rs)))"

text \<open>The object given to \<^verbatim>\<open>setResults\<close> (lines 137 to 142), without its field
  \<^verbatim>\<open>symbol\<close>, the upper-cased text of the input field.\<close>

record results =
  currentPrice :: string
  investment :: number
  periods :: "period_result list"

text \<open>Line 57: \<^verbatim>\<open>rawPrices[rawPrices.length - 1]\<close>, which reads index \<open>-1\<close> of an empty
  array.\<close>

definition lastPrice :: "jsval list \<Rightarrow> jsval" where
  "lastPrice rawPrices =
     (if rawPrices = [] then Undefined else elemAt rawPrices (length rawPrices - 1))"

text \<open>
  The body of the \<^verbatim>\<open>try\<close> block from line 51 on. The three arrays of the response may
  be missing (\<open>None\<close>): \<^verbatim>\<open>rawPrices.length\<close> (line 57) and \<^verbatim>\<open>timestamps.length\<close>
  (line 62) throw then, while a missing \<^verbatim>\<open>adjClose\<close> is replaced by \<^verbatim>\<open>rawPrices\<close>
  (line 56). \<open>Inl\<close> is the exception that the \<^verbatim>\<open>catch\<close> of line 144 turns into the error
  message, in which case \<^verbatim>\<open>setResults\<close> is not called.
\<close>

definition fetchStockData ::
  "env \<Rightarrow> number \<Rightarrow> int list option \<Rightarrow> jsval list option \<Rightarrow> jsval list option
     \<Rightarrow> error + results" where
  "fetchStockData e investmentAmount timestampsOpt adjClose rawPricesOpt =
     (case rawPricesOpt of
        None \<Rightarrow> Inl TypeError
      | Some rawPrices \<Rightarrow>
          (let prices = (case adjClose of None \<Rightarrow> rawPrices | Some a \<Rightarrow> a);
               cur = lastPrice rawPrices
           in case timestampsOpt of
                None \<Rightarrow> Inl TypeError
              | Some timestamps \<Rightarrow>
                  (case periodResults e investmentAmount timestamps prices rawPrices cur PERIODS of
                     Inl err \<Rightarrow> Inl err
                   | Inr rs \<Rightarrow>
                       (case callToFixed cur 2 of
                          Inl err \<Rightarrow> Inl err
                        | Inr cp \<Rightarrow>
                            Inr \<lparr>currentPrice = cp, investment = investmentAmount,
                                 periods = rs\<rparr>))))"

section \<open>Notions used in the statements\<close>

text \<open>The distance in seconds between the timestamp at index \<open>i\<close> and a target time.\<close>

definition distance :: "int list \<Rightarrow> real \<Rightarrow> nat \<Rightarrow> real" where
  "distance timestamps t i = \<bar>real_of_int (timestamps ! i) - t\<bar>"

text \<open>The state of the scan of lines 106 to 112 after the first \<open>n\<close> points: either no
  point so far has a truthy price and the state is the initial one, or the state holds the
  first point of least distance among those with a truthy price.\<close>

definition scanInv :: "int list \<Rightarrow> jsval list \<Rightarrow> real \<Rightarrow> nat \<Rightarrow> nat \<times> number \<Rightarrow> bool" where
  "scanInv timestamps prices t n st =
     (((\<forall>i<n. \<not> truthy (elemAt prices i)) \<and> st = (0, Infinity False))
      \<or> (\<exists>k<n. truthy (elemAt prices k) \<and> st = (k, Fin (distance timestamps t k))
            \<and> (\<forall>j<n. truthy (elemAt prices j) \<longrightarrow>
                  distance timestamps t k \<le> distance timestamps t j
                  \<and> (distance timestamps t j = distance timestamps t k \<longrightarrow> k \<le> j))))"

text \<open>The sum that the loop of lines 79 to 85 builds, and the indices it adds up.\<close>

definition sumValues :: "jsval list \<Rightarrow> number \<Rightarrow> number" where
  "sumValues vs a = fold (\<lambda>v s. num_add s (ToNumber v)) vs a"

definition qualifying :: "env \<Rightarrow> int list \<Rightarrow> jsval list \<Rightarrow> jsval list \<Rightarrow> jsval \<Rightarrow> nat list" where
  "qualifying e timestamps prices rawPrices yearsAgo =
     filter (qualifies timestamps prices rawPrices (yearStart e yearsAgo) (yearEnd e yearsAgo))
       [0..<length timestamps]"

text \<open>The timestamp at index \<open>i\<close> lies in the calendar year of a period of
  \<open>yearsAgo\<close> years: from 1 January 00:00, where the window starts, to 31 December
  23:59:59, which is 86399 seconds after the first instant of 31 December.\<close>

definition inYear :: "env \<Rightarrow> jsval \<Rightarrow> int list \<Rightarrow> nat \<Rightarrow> bool" where
  "inYear e yearsAgo timestamps i =
     (num_ge (Fin (real_of_int (timestamps ! i))) (yearStart e yearsAgo)
      \<and> num_ge (time_add (yearEnd e yearsAgo) (Fin 86399)) (Fin (real_of_int (timestamps ! i))))"

text \<open>The mean as lines 81 to 87 compute it: the sum divided by the count.\<close>

definition meanOf :: "jsval list \<Rightarrow> number" where
  "meanOf vs = num_div (sumValues vs (Fin 0)) (Fin (real (length vs)))"

text \<open>An environment for the examples: the clock reads 3 November 2026, 00:00 UTC, and
  local time is UTC.\<close>

definition utc2026 :: env where
  "utc2026 = \<lparr>endDate = 1793664000, currentYear = 2026, LocalTZA = (\<lambda>_. 0)\<rparr>"

text \<open>The result of a period of the examples that share one baseline: an investment of 1000
  at a baseline of 100, with a current price of 150.\<close>

definition sampleResult :: "string \<Rightarrow> period_result" where
  "sampleResult l =
     \<lparr>period = l, pastPrice = ''100.00'', shares = ''10.0000'', currentValue = ''1500.00'',
      profit = ''500.00'', profitRate = ''50.00'', isProfit = True, isYearAvg = False\<rparr>"

section \<open>Evaluation of concrete inputs\<close>

lemma replicate_numeral: "replicate (numeral k) x = x # replicate (pred_numeral k) x"
  by (simp add: numeral_eq_Suc)

lemmas round_eval = roundDouble_def exponent_def bits.simps pow2_def roundEven_def Let_def

lemmas toFixed_eval = fixedInt_def pointed_def digits.simps digit_def replicate_numeral
  round_eval

lemma roundDouble_zero: "roundDouble 0 = Fin 0"
  by (simp add: roundDouble_def)

lemmas date_eval = targetYear_def yearStart_def yearEnd_def ToInteger_def MakeDay_def
  DayFromYear_def monthStart_def InLeapYear_def

lemmas scan_eval = baseline_def closestScan_def closestStep_def targetOf_def elemAt_def

lemmas year_eval = baseline_def getYearAveragePrice_def yearStep_def qualifies_def elemAt_def

lemmas result_eval = periodResult_def makeResult_def periodResults_def

lemma PERIODS_nth:
  "PERIODS ! 0 = \<lparr>label = ''1'' @ ju_il @ jeon, days = Num (Fin 7), years = Undefined, useYearAvg = False\<rparr>"
  "PERIODS ! 5 = \<lparr>label = ''2'' @ nyeon @ jeon, days = Undefined, years = Num (Fin 2), useYearAvg = True\<rparr>"
  by (simp_all add: PERIODS_def)

lemma window_2024:
  "yearStart utc2026 (Num (Fin 2)) = Fin 1704067200"
  "yearEnd utc2026 (Num (Fin 2)) = Fin 1735603200"
  by (simp_all add: date_eval utc2026_def)

lemma sample_results:
  "periodResults utc2026 (Fin 1000) [1793059200, 1793664000] [Num (Fin 100), Num (Fin 150)]
     [Num (Fin 100), Num (Fin 150)] (Num (Fin 150)) PERIODS =
   Inr (map sampleResult (map label (take 5 PERIODS)))"
  by (simp add: PERIODS_def scan_eval getYearAveragePrice_def yearStep_def qualifies_def
      date_eval utc2026_def result_eval toFixed_eval sampleResult_def)

lemma sample_period_result:
  "periodResult utc2026 (Fin 1000) [1793059200, 1793664000] [Num (Fin 100), Num (Fin 150)]
     [Num (Fin 100), Num (Fin 150)] (Num (Fin 150)) (PERIODS ! 0) =
   Inr (Some (sampleResult (label (PERIODS ! 0))))"
  by (simp add: PERIODS_nth scan_eval utc2026_def result_eval toFixed_eval sampleResult_def)

section \<open>Exactness of the arithmetic on times\<close>

text \<open>
  A whole number below \<open>2 ^ 53\<close> in magnitude is a double, so the sum, the difference and
  the product of two whole numbers round to themselves when they stay below that bound. This
  is where the operators on times agree with the rounding ones; for the periods of the table
  and a clock below \<open>2 ^ 52\<close> seconds the target of line 102 is such a number.
\<close>

lemma bits_bound: "n < 2 ^ k \<Longrightarrow> bits n \<le> k"
proof (induction k arbitrary: n)
  case 0
  then show ?case by (simp add: bits.simps)
next
  case (Suc k)
  then have "n div 2 < 2 ^ k" by auto
  from Suc.IH [OF this] show ?case by (subst bits.simps) simp
qed

lemma bits_pos: "0 < n \<Longrightarrow> 0 < bits n"
  by (subst bits.simps) simp

lemma roundEven_of_int: "roundEven (of_int m) = m"
  by (simp add: roundEven_def)

lemma roundDouble_nat:
  assumes "0 < n" and "n < 2 ^ 53"
  shows "roundDouble (real n) = Fin (real n)"
proof -
  let ?b = "bits n"
  have b: "0 < ?b" "?b \<le> 53" using assms by (simp_all add: bits_pos bits_bound)
  have e: "exponent \<bar>real n\<bar> = int ?b - 1"
    using assms by (simp add: exponent_def)
  have q: "pow2 (max (exponent \<bar>real n\<bar>) (- 1022) - 52) = 1 / 2 ^ (53 - ?b)"
  proof (cases "?b = 53")
    case True
    then show ?thesis unfolding e by (simp add: pow2_def)
  next
    case False
    with b have "?b < 53" by simp
    then have "nat (53 - int ?b) = 53 - ?b" by simp
    with \<open>?b < 53\<close> b show ?thesis unfolding e by (simp add: pow2_def)
  qed
  have "\<bar>real n\<bar> / (1 / 2 ^ (53 - ?b)) = of_int (int n * 2 ^ (53 - ?b))"
    by simp
  then have r: "roundEven (\<bar>real n\<bar> / (1 / 2 ^ (53 - ?b))) = int n * 2 ^ (53 - ?b)"
    by (simp only: roundEven_of_int)
  have "real n < 2 ^ 53" using assms(2)
    by (metis of_nat_less_iff of_nat_numeral of_nat_power)
  then have small: "\<not> pow2 1024 - pow2 970 \<le> \<bar>real n\<bar>"
    by (simp add: pow2_def)
  show ?thesis
    using assms(1) small unfolding roundDouble_def Let_def q r by simp
qed

lemma roundDouble_int:
  assumes "\<bar>i\<bar> < 2 ^ 53"
  shows "roundDouble (of_int i) = Fin (of_int i)"
proof (cases "i = 0")
  case True
  then show ?thesis by (simp add: roundDouble_def)
next
  case False
  define n where "n = nat \<bar>i\<bar>"
  have n: "0 < n" "n < 2 ^ 53" using False assms by (simp_all add: n_def nat_less_iff)
  have a: "\<bar>real_of_int i\<bar> = real n" by (simp add: n_def)
  from roundDouble_nat [OF n] have rn: "roundDouble (real n) = Fin (real n)" .
  show ?thesis
  proof (cases "0 < i")
    case True
    then have "real_of_int i = real n" by (simp add: n_def)
    with rn show ?thesis by simp
  next
    case neg: False
    with False have i: "i < 0" by simp
    then have ri: "real_of_int i = - real n" by (simp add: n_def)
    have "roundDouble (- real n) = Fin (- real n)"
      using rn n(1) by (simp add: roundDouble_def Let_def split: if_splits)
    with ri show ?thesis by simp
  qed
qed

lemma time_arithmetic_exact:
  "\<bar>a + b\<bar> < 2 ^ 53 \<Longrightarrow>
     num_add (Fin (of_int a)) (Fin (of_int b)) = time_add (Fin (of_int a)) (Fin (of_int b))"
  "\<bar>a - b\<bar> < 2 ^ 53 \<Longrightarrow>
     num_sub (Fin (of_int a)) (Fin (of_int b)) = time_sub (Fin (of_int a)) (Fin (of_int b))"
  "\<bar>a * b\<bar> < 2 ^ 53 \<Longrightarrow>
     num_mul (Fin (of_int a)) (Fin (of_int b)) = time_mul (Fin (of_int a)) (Fin (of_int b))"
  using roundDouble_int [of "a + b"] roundDouble_int [of "a - b"] roundDouble_int [of "a * b"]
  by simp_all


lemma targetOf_exact:
  assumes "p \<in> set PERIODS" and "\<not> useYearAvg p" and "\<bar>endDate e\<bar> < 2 ^ 52"
  shows "targetOf e (days p) =
     num_sub (Fin (of_int (endDate e)))
       (num_mul (num_mul (num_mul (ToNumber (days p)) (Fin 24)) (Fin 60)) (Fin 60))"
proof -
  from assms(1,2) consider "days p = Num (Fin 7)" | "days p = Num (Fin 30)"
    | "days p = Num (Fin 90)" | "days p = Num (Fin 180)" | "days p = Num (Fin 365)"
    by (auto simp: PERIODS_def)
  then obtain d :: int where d: "days p = Num (Fin (of_int d))" "0 \<le> d" "d \<le> 365"
  proof cases
    case 1 then show ?thesis using that [of 7] by simp
  next
    case 2 then show ?thesis using that [of 30] by simp
  next
    case 3 then show ?thesis using that [of 90] by simp
  next
    case 4 then show ?thesis using that [of 180] by simp
  next
    case 5 then show ?thesis using that [of 365] by simp
  qed
  have m: "\<bar>x * k\<bar> < 2 ^ 53" if "0 \<le> x" "x \<le> 365 * 24 * 60" "0 \<le> k" "k \<le> 60" for x k :: int
  proof -
    from that have "x * k \<le> (365 * 24 * 60) * 60" by (intro mult_mono) simp_all
    moreover from that have "0 \<le> x * k" by simp
    ultimately show ?thesis by simp
  qed
  have 1: "num_mul (Fin (of_int d)) (Fin 24) = Fin (of_int (d * 24))"
    using time_arithmetic_exact(3) [of d 24] m [of d 24] d by simp
  have 2: "num_mul (Fin (of_int (d * 24))) (Fin 60) = Fin (of_int (d * 24 * 60))"
    using time_arithmetic_exact(3) [of "d * 24" 60] m [of "d * 24" 60] d by simp
  have 3: "num_mul (Fin (of_int (d * 24 * 60))) (Fin 60) = Fin (of_int (d * 24 * 60 * 60))"
    using time_arithmetic_exact(3) [of "d * 24 * 60" 60] m [of "d * 24 * 60" 60] d by simp
  have "\<bar>endDate e - d * 24 * 60 * 60\<bar> < 2 ^ 53"
    using assms(3) d by simp
  from time_arithmetic_exact(2) [OF this]
  have 4: "num_sub (Fin (of_int (endDate e))) (Fin (of_int (d * 24 * 60 * 60)))
      = Fin (of_int (endDate e) - of_int (d * 24 * 60 * 60))"
    by simp
  show ?thesis
    unfolding d(1) ToNumber.simps 1 2 3 4 by (simp add: targetOf_def)
qed

section \<open>The scan for the nearest point\<close>

lemma closestStep_Fin:
  "closestStep timestamps prices (Fin t) i (k, m) =
     (if num_lt (Fin (distance timestamps t i)) m \<and> truthy (elemAt prices i)
      then (i, Fin (distance timestamps t i)) else (k, m))"
  by (simp add: closestStep_def distance_def Let_def)

lemma scanInv_step:
  assumes "scanInv timestamps prices t n st"
  shows "scanInv timestamps prices t (Suc n) (closestStep timestamps prices (Fin t) n st)"
proof -
  obtain k m where st: "st = (k, m)" by (cases st)
  from assms consider
    (none) "\<forall>i<n. \<not> truthy (elemAt prices i)" "st = (0, Infinity False)"
  | (some) k' where "k' < n" "truthy (elemAt prices k')"
      "st = (k', Fin (distance timestamps t k'))"
      "\<forall>j<n. truthy (elemAt prices j) \<longrightarrow>
          distance timestamps t k' \<le> distance timestamps t j
          \<and> (distance timestamps t j = distance timestamps t k' \<longrightarrow> k' \<le> j)"
    unfolding scanInv_def by blast
  then show ?thesis
  proof cases
    case none
    then show ?thesis
      unfolding scanInv_def by (auto simp: closestStep_Fin less_Suc_eq)
  next
    case some
    show ?thesis
    proof (cases "distance timestamps t n < distance timestamps t k' \<and> truthy (elemAt prices n)")
      case True
      then have "closestStep timestamps prices (Fin t) n st = (n, Fin (distance timestamps t n))"
        using some(3) by (simp add: closestStep_Fin)
      moreover have "\<forall>j<Suc n. truthy (elemAt prices j) \<longrightarrow>
          distance timestamps t n \<le> distance timestamps t j
          \<and> (distance timestamps t j = distance timestamps t n \<longrightarrow> n \<le> j)"
        using True some(4) by (fastforce simp: less_Suc_eq)
      ultimately show ?thesis
        unfolding scanInv_def using True by auto
    next
      case False
      then have "closestStep timestamps prices (Fin t) n st = st"
        using some(3) by (auto simp: closestStep_Fin)
      moreover have "\<forall>j<Suc n. truthy (elemAt prices j) \<longrightarrow>
          distance timestamps t k' \<le> distance timestamps t j
          \<and> (distance timestamps t j = distance timestamps t k' \<longrightarrow> k' \<le> j)"
        using False some(1,4) by (auto simp: less_Suc_eq)
      ultimately show ?thesis
        unfolding scanInv_def using some(1,2,3) by (auto simp: less_Suc_eq)
    qed
  qed
qed

lemma scanInv_fold:
  "scanInv timestamps prices t n
     (fold (closestStep timestamps prices (Fin t)) [0..<n] (0, Infinity False))"
proof (induction n)
  case 0
  show ?case by (simp add: scanInv_def)
next
  case (Suc n)
  then show ?case by (simp add: scanInv_step)
qed

lemma closestScan_inv:
  "scanInv timestamps prices t (length timestamps) (closestScan timestamps prices (Fin t))"
  unfolding closestScan_def by (rule scanInv_fold)

lemma targetOf_Fin:
  "targetOf e (Num (Fin n)) = Fin (real_of_int (endDate e) - n * 86400)"
  by (simp add: targetOf_def)

lemma makeResult_falsy: "\<not> truthy a \<Longrightarrow> makeResult amt cur p a b = Inr None"
  by (simp add: makeResult_def)

section \<open>The yearly average\<close>

lemma yearStep_fold:
  "fold (yearStep ts ps rs ys ye) is (a, r, c) =
     (sumValues (map (elemAt ps) (filter (qualifies ts ps rs ys ye) is)) a,
      sumValues (map (elemAt rs) (filter (qualifies ts ps rs ys ye) is)) r,
      c + length (filter (qualifies ts ps rs ys ye) is))"
  by (induction "is" arbitrary: a r c) (simp_all add: yearStep_def sumValues_def)

lemma getYearAveragePrice_eq:
  "getYearAveragePrice e ts ps rs y =
     (let q = qualifying e ts ps rs y in
      if q = [] then None
      else Some (num_div (sumValues (map (elemAt ps) q) (Fin 0)) (Fin (real (length q))),
                 num_div (sumValues (map (elemAt rs) q) (Fin 0)) (Fin (real (length q)))))"
  by (simp add: getYearAveragePrice_def yearStep_fold qualifying_def Let_def)

section \<open>Mapping over the periods\<close>

lemma mapThrow_Inr:
  "mapThrow f xs = Inr ys \<Longrightarrow> map f xs = map Inr ys"
  by (induction xs arbitrary: ys) (auto split: sum.splits)

lemma mapThrow_kept:
  "mapThrow f xs = Inr ys \<Longrightarrow>
     map the (filter (\<lambda>r. r \<noteq> None) ys) =
       map (\<lambda>x. the (projr (f x))) (filter (\<lambda>x. f x \<noteq> Inr None) xs)"
proof (induction xs arbitrary: ys)
  case Nil
  then show ?case by simp
next
  case (Cons x xs)
  then show ?case
    by (auto split: sum.splits)
qed

lemma mapThrow_isl:
  "isl (mapThrow f xs) \<longleftrightarrow> (\<exists>x\<in>set xs. isl (f x))"
  by (induction xs) (auto split: sum.splits)

lemma makeResult_label:
  "makeResult amt cur p a b = Inr (Some r) \<Longrightarrow> period r = label p"
  by (auto simp: makeResult_def Let_def split: if_splits sum.splits)

lemma periodResult_label:
  "periodResult e amt ts ps rs cur p = Inr (Some r) \<Longrightarrow> period r = label p"
  by (auto simp: periodResult_def split: option.splits dest: makeResult_label)

lemma subseq_kept:
  "(\<And>x. x \<in> set xs \<Longrightarrow> P x \<Longrightarrow> g x = h x) \<Longrightarrow>
     subseq (map g (filter P xs)) (map h xs)"
proof (induction xs)
  case Nil
  show ?case by simp
next
  case (Cons x xs)
  then show ?case by (auto intro: subseq_Cons')
qed

lemma periodResult_Some:
  assumes "periodResult e amt ts ps rs cur p = Inr (Some r)"
  shows "\<exists>a b. baseline e ts ps rs p = Some (a, Num b) \<and> truthy a
           \<and> period r = label p \<and> pastPrice r = toFixed b 2
           \<and> shares r = toFixed (num_div amt (ToNumber a)) 4"
proof -
  from assms obtain a b where ab: "baseline e ts ps rs p = Some (a, b)"
      and mk: "makeResult amt cur p a b = Inr (Some r)"
    by (auto simp: periodResult_def split: option.splits)
  from mk have t: "truthy a"
    by (auto simp: makeResult_def split: if_splits)
  from mk t obtain n where n: "b = Num n"
    by (cases b) (auto simp: makeResult_def Let_def)
  from mk t n have "period r = label p \<and> pastPrice r = toFixed n 2
      \<and> shares r = toFixed (num_div amt (ToNumber a)) 4"
    by (auto simp: makeResult_def Let_def)
  with ab t n show ?thesis by blast
qed

lemma num_ge_later: "num_ge d (Fin t) \<Longrightarrow> num_ge (time_add d (Fin 86399)) (Fin t)"
  by (cases d) auto

lemma truthy_divisor: "truthy a \<Longrightarrow> ToNumber a \<noteq> Fin 0 \<and> ToNumber a \<noteq> NaN"
  by (cases a rule: truthy.cases) auto

lemma roundDouble_infinite:
  "roundDouble y = Infinity s \<Longrightarrow> 2 ^ 1024 - 2 ^ 970 \<le> \<bar>y\<bar>"
  by (simp add: roundDouble_def pow2_def Let_def split: if_splits)

lemma quotient_infinite:
  assumes "truthy a" and "num_div (Fin amt) (ToNumber a) = Infinity s"
  shows "\<exists>x. a = Num (Fin x) \<and> x \<noteq> 0 \<and> 2 ^ 1024 - 2 ^ 970 \<le> \<bar>amt / x\<bar>"
  using assms
  by (cases a rule: truthy.cases) (auto dest: roundDouble_infinite)

lemma periodResult_emits:
  assumes "baseline e ts ps rs p = Some (a, Num b)" and "truthy a"
  shows "periodResult e amt ts ps rs cur p =
    Inr (Some \<lparr>period = label p, pastPrice = toFixed b 2,
      shares = toFixed (num_div amt (ToNumber a)) 4,
      currentValue = toFixed (num_mul (num_div amt (ToNumber a)) (ToNumber cur)) 2,
      profit = toFixed (num_sub (num_mul (num_div amt (ToNumber a)) (ToNumber cur)) amt) 2,
      profitRate = toFixed (num_mul (num_div
          (num_sub (num_mul (num_div amt (ToNumber a)) (ToNumber cur)) amt) amt) (Fin 100)) 2,
      isProfit = num_ge (num_sub (num_mul (num_div amt (ToNumber a)) (ToNumber cur)) amt) (Fin 0),
      isYearAvg = useYearAvg p\<rparr>)"
  using assms by (simp add: periodResult_def makeResult_def Let_def)

lemma periodResults_Inr:
  assumes "periodResults e amt ts ps rs cur pl = Inr out"
  shows "out = map (\<lambda>p. the (projr (periodResult e amt ts ps rs cur p)))
                 (filter (\<lambda>p. periodResult e amt ts ps rs cur p \<noteq> Inr None) pl)"
    and "\<forall>r\<in>set out. \<exists>p\<in>set pl. periodResult e amt ts ps rs cur p = Inr (Some r)"
proof -
  let ?f = "periodResult e amt ts ps rs cur"
  from assms obtain ys where ys: "mapThrow ?f pl = Inr ys"
      and out: "out = map the (filter (\<lambda>r. r \<noteq> None) ys)"
    by (auto simp: periodResults_def split: sum.splits)
  from out mapThrow_kept [OF ys] show "out = map (\<lambda>p. the (projr (?f p)))
                 (filter (\<lambda>p. ?f p \<noteq> Inr None) pl)"
    by simp
  have m: "map ?f pl = map Inr ys" by (rule mapThrow_Inr [OF ys])
  show "\<forall>r\<in>set out. \<exists>p\<in>set pl. ?f p = Inr (Some r)"
  proof
    fix r assume "r \<in> set out"
    with out have "Some r \<in> set ys" by auto
    then have "Inr (Some r) \<in> set (map ?f pl)" unfolding m by simp
    then show "\<exists>p\<in>set pl. ?f p = Inr (Some r)" by auto
  qed
qed

section \<open>The table of periods\<close>

text \<open>
  C8. The table \<open>PERIODS\<close> has exactly nine entries, in this order: 7, 30, 90, 180 and 365
  days with the nearest-date strategy (\<open>useYearAvg\<close> false), then 2, 3, 5 and 10 years with
  the calendar-year average (\<open>useYearAvg\<close> true).
\<close>

theorem PERIODS_table:
  "length PERIODS = 9 \<and>
   map (\<lambda>p. (days p, years p, useYearAvg p)) PERIODS =
     [(Num (Fin 7), Undefined, False), (Num (Fin 30), Undefined, False),
      (Num (Fin 90), Undefined, False), (Num (Fin 180), Undefined, False),
      (Num (Fin 365), Undefined, False), (Undefined, Num (Fin 2), True),
      (Undefined, Num (Fin 3), True), (Undefined, Num (Fin 5), True),
      (Undefined, Num (Fin 10), True)]"
  by (simp add: PERIODS_def)

section \<open>The fields of a result\<close>

text \<open>
  C1, as amended. For a period whose baseline is the pair of finite numbers
  \<open>(adj, rawB)\<close> with \<open>adj \<noteq> 0\<close>, and a finite current price \<open>c\<close>, the callback emits a
  result whose numeric fields are \<^verbatim>\<open>toFixed\<close> renderings of quantities computed in double
  arithmetic: \<open>shares\<close> is the quotient \<open>investment / adj\<close>, which is the double nearest to
  the exact quotient, printed with four decimals; \<open>currentValue\<close> is \<open>shares * c\<close>, \<open>profit\<close>
  is \<open>currentValue - investment\<close> and \<open>profitRate\<close> is \<open>profit / investment * 100\<close>, each
  printed with two decimals, where every operation rounds its exact result to a double and
  works on the doubles of the steps before it, not on their printed texts; \<open>profitRate\<close> is
  the text \<open>NaN\<close> when the investment is zero; \<open>isProfit\<close> is \<open>profit \<ge> 0\<close> on the double
  \<open>profit\<close>.
\<close>

theorem result_fields_rendered:
  assumes "baseline e timestamps prices rawPrices p = Some (Num (Fin adj), Num (Fin rawB))"
    and "adj \<noteq> 0"
  shows "periodResult e (Fin amt) timestamps prices rawPrices (Num (Fin c)) p =
    Inr (Some \<lparr>period = label p, pastPrice = toFixed (Fin rawB) 2,
      shares = toFixed (num_div (Fin amt) (Fin adj)) 4,
      currentValue = toFixed (num_mul (num_div (Fin amt) (Fin adj)) (Fin c)) 2,
      profit = toFixed (num_sub (num_mul (num_div (Fin amt) (Fin adj)) (Fin c)) (Fin amt)) 2,
      profitRate = toFixed (num_mul (num_div
          (num_sub (num_mul (num_div (Fin amt) (Fin adj)) (Fin c)) (Fin amt)) (Fin amt))
          (Fin 100)) 2,
      isProfit = num_ge (num_sub (num_mul (num_div (Fin amt) (Fin adj)) (Fin c)) (Fin amt))
          (Fin 0),
      isYearAvg = useYearAvg p\<rparr>)
    \<and> num_div (Fin amt) (Fin adj) = roundDouble (amt / adj)
    \<and> (amt = 0 \<longrightarrow>
         toFixed (num_mul (num_div
           (num_sub (num_mul (num_div (Fin amt) (Fin adj)) (Fin c)) (Fin amt)) (Fin amt))
           (Fin 100)) 2 = ''NaN'')"
  using assms
  by (simp add: periodResult_def makeResult_def Let_def roundDouble_zero del: toFixed.simps(3))

theorem result_fields_rendered_witness:
  "periodResult utc2026 (Fin 1000) [1793059200, 1793664000] [Num (Fin 100), Num (Fin 150)]
     [Num (Fin 100), Num (Fin 150)] (Num (Fin 150)) (PERIODS ! 0) =
   Inr (Some \<lparr>period = label (PERIODS ! 0), pastPrice = ''100.00'', shares = ''10.0000'',
     currentValue = ''1500.00'', profit = ''500.00'', profitRate = ''50.00'',
     isProfit = True, isYearAvg = False\<rparr>)"
proof -
  have b: "baseline utc2026 [1793059200, 1793664000] [Num (Fin 100), Num (Fin 150)]
     [Num (Fin 100), Num (Fin 150)] (PERIODS ! 0) = Some (Num (Fin 100), Num (Fin 100))"
    by (simp add: PERIODS_nth scan_eval utc2026_def)
  have nz: "(100::real) \<noteq> 0" by simp
  show ?thesis
    using result_fields_rendered [OF b nz, of 1000 150, THEN conjunct1]
    by (simp add: toFixed_eval PERIODS_nth)
qed

text \<open>
  The claim as stated, that the emitted fields are the quantities themselves, fails: with an
  investment of 1000 and a price of 19 both seven days ago and now, the emitted \<open>shares\<close> is
  \<open>52.6316\<close>, which is not \<open>1000 / 19\<close>, and the emitted \<open>profit\<close> is \<open>-0.00\<close> with
  \<open>isProfit\<close> false, the double product of \<open>1000 / 19\<close> and \<open>19\<close> being just below 1000.
\<close>

theorem emitted_fields_are_rounded:
  "periodResult utc2026 (Fin 1000) [1793059200, 1793664000] [Num (Fin 19), Num (Fin 19)]
     [Num (Fin 19), Num (Fin 19)] (lastPrice [Num (Fin 19), Num (Fin 19)]) (PERIODS ! 0) =
   Inr (Some \<lparr>period = label (PERIODS ! 0), pastPrice = ''19.00'', shares = ''52.6316'',
     currentValue = ''1000.00'', profit = ''-0.00'', profitRate = ''-0.00'',
     isProfit = False, isYearAvg = False\<rparr>)
   \<and> (1000 :: real) / 19 \<noteq> 526316 / 10000"
  by (simp add: PERIODS_nth scan_eval utc2026_def result_eval toFixed_eval lastPrice_def)

section \<open>The nearest-date strategy\<close>

text \<open>
  C4, as amended. For a period of \<open>n\<close> days the target is \<open>endDate - n * 86400\<close>. When some
  scanned point has a truthy adjusted price (a number other than zero), the baseline is taken
  at the index \<open>k\<close> of such a point whose distance to the target is least among them; among
  points of equal distance \<open>k\<close> is the first scanned, which for timestamps in ascending
  order is the chronologically earlier one. When no adjusted price is truthy, the period
  gives no result.
\<close>

theorem days_back_nearest:
  assumes "\<not> useYearAvg p" and "days p = Num (Fin n)"
  shows "((\<exists>i<length timestamps. truthy (elemAt prices i)) \<longrightarrow>
           (\<exists>k<length timestamps. truthy (elemAt prices k)
              \<and> baseline e timestamps prices rawPrices p
                    = Some (elemAt prices k, elemAt rawPrices k)
              \<and> (\<forall>j<length timestamps. truthy (elemAt prices j) \<longrightarrow>
                    distance timestamps (real_of_int (endDate e) - n * 86400) k
                      \<le> distance timestamps (real_of_int (endDate e) - n * 86400) j
                    \<and> (distance timestamps (real_of_int (endDate e) - n * 86400) j
                          = distance timestamps (real_of_int (endDate e) - n * 86400) k
                        \<longrightarrow> k \<le> j \<and> (sorted timestamps \<longrightarrow> timestamps ! k \<le> timestamps ! j)))))
       \<and> ((\<forall>i. \<not> truthy (elemAt prices i)) \<longrightarrow>
            periodResult e amt timestamps prices rawPrices cur p = Inr None)"
proof -
  let ?t = "real_of_int (endDate e) - n * 86400"
  let ?st = "closestScan timestamps prices (Fin ?t)"
  have inv: "scanInv timestamps prices ?t (length timestamps) ?st"
    by (rule closestScan_inv)
  have base: "baseline e timestamps prices rawPrices p
      = Some (elemAt prices (fst ?st), elemAt rawPrices (fst ?st))"
    using assms by (simp add: baseline_def targetOf_Fin Let_def)
  have some: "\<exists>k<length timestamps. truthy (elemAt prices k)
              \<and> baseline e timestamps prices rawPrices p
                    = Some (elemAt prices k, elemAt rawPrices k)
              \<and> (\<forall>j<length timestamps. truthy (elemAt prices j) \<longrightarrow>
                    distance timestamps ?t k \<le> distance timestamps ?t j
                    \<and> (distance timestamps ?t j = distance timestamps ?t k
                        \<longrightarrow> k \<le> j \<and> (sorted timestamps \<longrightarrow> timestamps ! k \<le> timestamps ! j)))"
    if ex: "\<exists>i<length timestamps. truthy (elemAt prices i)"
  proof -
    from inv ex obtain k where k: "k < length timestamps" "truthy (elemAt prices k)"
      "?st = (k, Fin (distance timestamps ?t k))"
      "\<forall>j<length timestamps. truthy (elemAt prices j) \<longrightarrow>
          distance timestamps ?t k \<le> distance timestamps ?t j
          \<and> (distance timestamps ?t j = distance timestamps ?t k \<longrightarrow> k \<le> j)"
      unfolding scanInv_def by blast
    have "baseline e timestamps prices rawPrices p = Some (elemAt prices k, elemAt rawPrices k)"
      using base k(3) by simp
    moreover have "\<forall>j<length timestamps. truthy (elemAt prices j) \<longrightarrow>
          distance timestamps ?t k \<le> distance timestamps ?t j
          \<and> (distance timestamps ?t j = distance timestamps ?t k
              \<longrightarrow> k \<le> j \<and> (sorted timestamps \<longrightarrow> timestamps ! k \<le> timestamps ! j))"
      using k(4) by (auto intro: sorted_nth_mono)
    ultimately show ?thesis using k(1,2) by blast
  qed
  have none: "periodResult e amt timestamps prices rawPrices cur p = Inr None"
    if no: "\<forall>i. \<not> truthy (elemAt prices i)"
  proof -
    from inv no have "?st = (0, Infinity False)"
      unfolding scanInv_def by blast
    then have b0: "baseline e timestamps prices rawPrices p
        = Some (elemAt prices 0, elemAt rawPrices 0)"
      using base by simp
    have "\<not> truthy (elemAt prices 0)"
      using no by blast
    then show ?thesis
      using b0 by (simp add: periodResult_def makeResult_falsy)
  qed
  from some none show ?thesis by blast
qed

theorem days_back_nearest_witness:
  "baseline utc2026 [1792972800, 1793145600] [Num (Fin 100), Num (Fin 110)]
      [Num (Fin 101), Num (Fin 111)] (PERIODS ! 0) = Some (Num (Fin 100), Num (Fin 101))
   \<and> periodResult utc2026 (Fin 1000) [1792972800, 1793145600] [Null, Null]
      [Num (Fin 101), Num (Fin 111)] (Num (Fin 111)) (PERIODS ! 0) = Inr None"
proof -
  let ?ts = "[1792972800, 1793145600 :: int]"
  let ?ps = "[Num (Fin 100), Num (Fin 110)]"
  let ?rs = "[Num (Fin 101), Num (Fin 111)]"
  let ?d = "distance ?ts (real_of_int (endDate utc2026) - 7 * 86400)"
  have p: "\<not> useYearAvg (PERIODS ! 0)" "days (PERIODS ! 0) = Num (Fin 7)"
    by (simp_all add: PERIODS_nth)
  have d: "?d 0 = 86400" "?d 1 = 86400"
    by (simp_all add: distance_def utc2026_def)
  have ex: "\<exists>i<length ?ts. truthy (elemAt ?ps i)"
    by (rule exI [of _ 0]) (simp add: elemAt_def)
  with days_back_nearest [OF p, of ?ts ?ps utc2026 ?rs]
  obtain k where k: "k < length ?ts"
      "baseline utc2026 ?ts ?ps ?rs (PERIODS ! 0) = Some (elemAt ?ps k, elemAt ?rs k)"
      "\<forall>j<length ?ts. truthy (elemAt ?ps j) \<longrightarrow>
         ?d k \<le> ?d j \<and> (?d j = ?d k \<longrightarrow> k \<le> j \<and> (sorted ?ts \<longrightarrow> ?ts ! k \<le> ?ts ! j))"
    by blast
  from k(1) have "k = 0 \<or> k = 1" by auto
  then have "?d k = 86400" using d by auto
  with k(3) [rule_format, of 0] d(1) have "k = 0"
    by (simp add: elemAt_def)
  with k(2) have first: "baseline utc2026 ?ts ?ps ?rs (PERIODS ! 0)
      = Some (Num (Fin 100), Num (Fin 101))"
    by (simp add: elemAt_def)
  have "\<forall>i. \<not> truthy (elemAt [Null, Null] i)"
    by (simp add: elemAt_def nth_Cons split: nat.splits)
  with days_back_nearest [OF p, of ?ts "[Null, Null]" utc2026 ?rs "Fin 1000" "Num (Fin 111)"]
  have "periodResult utc2026 (Fin 1000) ?ts [Null, Null] ?rs (Num (Fin 111)) (PERIODS ! 0)
      = Inr None"
    by blast
  with first show ?thesis by simp
qed

text \<open>
  The claim as stated, with every present adjusted price taking part, fails: a point whose
  adjusted price is the number zero is passed over, also when it is the nearest one.
\<close>

theorem nearest_passes_over_zero_price:
  "elemAt [Num (Fin 0), Num (Fin 5)] 0 = Num (Fin 0)
   \<and> distance [1793059200, 1793145600] (real_of_int (endDate utc2026) - 7 * 86400) 0
       < distance [1793059200, 1793145600] (real_of_int (endDate utc2026) - 7 * 86400) 1
   \<and> baseline utc2026 [1793059200, 1793145600] [Num (Fin 0), Num (Fin 5)]
       [Num (Fin 0), Num (Fin 5)] (PERIODS ! 0) = Some (Num (Fin 5), Num (Fin 5))"
  by (simp add: PERIODS_nth scan_eval distance_def utc2026_def)

section \<open>Skipped periods\<close>

text \<open>
  C5, as amended. A period whose baseline is missing, or whose adjusted baseline price is
  zero, \<^verbatim>\<open>null\<close> or \<^verbatim>\<open>undefined\<close>, gives no result. When the evaluation of a list of
  periods returns, its output holds exactly the results of the periods that are not skipped,
  in the order of the input: the labels of the output are a subsequence of the labels of the
  input, the output is at most as long as the input, and every result comes from a period
  whose adjusted baseline price is truthy, so that the divisor of its shares is a number
  other than zero. For a finite investment the quotient is an infinity only by overflow:
  the adjusted baseline is then a finite number \<open>x\<close> other than zero and the exact quotient
  \<open>investment / x\<close> has a magnitude of \<open>2 ^ 1024 - 2 ^ 970\<close> or more.
\<close>

theorem skipped_periods_omitted:
  "((baseline e ts ps rs p = None \<or> baseline e ts ps rs p = Some (Num (Fin 0), rawB)
       \<or> baseline e ts ps rs p = Some (Null, rawB)
       \<or> baseline e ts ps rs p = Some (Undefined, rawB))
      \<longrightarrow> periodResult e (Fin amt) ts ps rs cur p = Inr None)
   \<and> (periodResults e (Fin amt) ts ps rs cur pl = Inr out \<longrightarrow>
        out = map (\<lambda>p. the (projr (periodResult e (Fin amt) ts ps rs cur p)))
                (filter (\<lambda>p. periodResult e (Fin amt) ts ps rs cur p \<noteq> Inr None) pl)
        \<and> subseq (map period out) (map label pl)
        \<and> length out \<le> length pl
        \<and> (\<forall>r\<in>set out. \<exists>p\<in>set pl. \<exists>a b.
              baseline e ts ps rs p = Some (a, b) \<and> truthy a \<and> period r = label p
              \<and> shares r = toFixed (num_div (Fin amt) (ToNumber a)) 4
              \<and> ToNumber a \<noteq> Fin 0 \<and> ToNumber a \<noteq> NaN
              \<and> (\<forall>s. num_div (Fin amt) (ToNumber a) = Infinity s \<longrightarrow>
                    (\<exists>x. a = Num (Fin x) \<and> x \<noteq> 0 \<and> 2 ^ 1024 - 2 ^ 970 \<le> \<bar>amt / x\<bar>))))"
proof (intro conjI impI)
  assume "baseline e ts ps rs p = None \<or> baseline e ts ps rs p = Some (Num (Fin 0), rawB)
       \<or> baseline e ts ps rs p = Some (Null, rawB)
       \<or> baseline e ts ps rs p = Some (Undefined, rawB)"
  then show "periodResult e (Fin amt) ts ps rs cur p = Inr None"
    by (auto simp: periodResult_def makeResult_falsy)
next
  let ?f = "periodResult e (Fin amt) ts ps rs cur"
  assume a: "periodResults e (Fin amt) ts ps rs cur pl = Inr out"
  show eq: "out = map (\<lambda>p. the (projr (?f p))) (filter (\<lambda>p. ?f p \<noteq> Inr None) pl)"
    by (rule periodResults_Inr(1) [OF a])
  have lab: "period (the (projr (?f p))) = label p" if "?f p \<noteq> Inr None" "\<not> isl (?f p)" for p
  proof -
    from that obtain r where "?f p = Inr (Some r)"
      by (cases "?f p") auto
    then show ?thesis by (simp add: periodResult_label)
  qed
  have noerr: "\<not> isl (?f p)" if "p \<in> set pl" for p
  proof -
    from a have "\<not> isl (mapThrow ?f pl)"
      by (auto simp: periodResults_def split: sum.splits)
    with that show ?thesis by (auto simp: mapThrow_isl)
  qed
  have "subseq (map (\<lambda>p. period (the (projr (?f p)))) (filter (\<lambda>p. ?f p \<noteq> Inr None) pl))
          (map label pl)"
    by (rule subseq_kept) (simp add: lab noerr)
  moreover have "map period out
      = map (\<lambda>p. period (the (projr (?f p)))) (filter (\<lambda>p. ?f p \<noteq> Inr None) pl)"
    by (subst eq) (simp add: comp_def)
  ultimately show "subseq (map period out) (map label pl)"
    by simp
  show "length out \<le> length pl"
    by (subst eq) simp
  show "\<forall>r\<in>set out. \<exists>p\<in>set pl. \<exists>a b.
              baseline e ts ps rs p = Some (a, b) \<and> truthy a \<and> period r = label p
              \<and> shares r = toFixed (num_div (Fin amt) (ToNumber a)) 4
              \<and> ToNumber a \<noteq> Fin 0 \<and> ToNumber a \<noteq> NaN
              \<and> (\<forall>s. num_div (Fin amt) (ToNumber a) = Infinity s \<longrightarrow>
                    (\<exists>x. a = Num (Fin x) \<and> x \<noteq> 0 \<and> 2 ^ 1024 - 2 ^ 970 \<le> \<bar>amt / x\<bar>))"
  proof
    fix r assume "r \<in> set out"
    with periodResults_Inr(2) [OF a] obtain p where p: "p \<in> set pl" "?f p = Inr (Some r)"
      by blast
    from periodResult_Some [OF p(2)] obtain a b where ab:
      "baseline e ts ps rs p = Some (a, Num b)" "truthy a" "period r = label p"
      "shares r = toFixed (num_div (Fin amt) (ToNumber a)) 4"
      by blast
    have "\<forall>s. num_div (Fin amt) (ToNumber a) = Infinity s \<longrightarrow>
        (\<exists>x. a = Num (Fin x) \<and> x \<noteq> 0 \<and> 2 ^ 1024 - 2 ^ 970 \<le> \<bar>amt / x\<bar>)"
      using quotient_infinite [OF ab(2)] by blast
    with ab p(1) truthy_divisor [of a] show "\<exists>p\<in>set pl. \<exists>a b.
              baseline e ts ps rs p = Some (a, b) \<and> truthy a \<and> period r = label p
              \<and> shares r = toFixed (num_div (Fin amt) (ToNumber a)) 4
              \<and> ToNumber a \<noteq> Fin 0 \<and> ToNumber a \<noteq> NaN
              \<and> (\<forall>s. num_div (Fin amt) (ToNumber a) = Infinity s \<longrightarrow>
                    (\<exists>x. a = Num (Fin x) \<and> x \<noteq> 0 \<and> 2 ^ 1024 - 2 ^ 970 \<le> \<bar>amt / x\<bar>))"
      by blast
  qed
qed

theorem skipped_periods_omitted_witness:
  "periodResult utc2026 (Fin 1000) [1793059200, 1793664000] [Num (Fin 100), Num (Fin 150)]
      [Num (Fin 100), Num (Fin 150)] (Num (Fin 150)) (PERIODS ! 5) = Inr None
   \<and> periodResult utc2026 (Fin 1000) [1793059200] [Num (Fin 0)] [Num (Fin 5)]
      (Num (Fin 5)) (PERIODS ! 0) = Inr None
   \<and> (\<exists>out. periodResults utc2026 (Fin 1000) [1793059200, 1793664000]
          [Num (Fin 100), Num (Fin 150)] [Num (Fin 100), Num (Fin 150)] (Num (Fin 150)) PERIODS
          = Inr out
        \<and> length out = 5 \<and> length out < length PERIODS
        \<and> subseq (map period out) (map label PERIODS))"
proof -
  let ?ts = "[1793059200, 1793664000 :: int]"
  let ?ps = "[Num (Fin 100), Num (Fin 150)]"
  let ?out = "map sampleResult (map label (take 5 PERIODS))"
  have b1: "baseline utc2026 ?ts ?ps ?ps (PERIODS ! 5) = None"
    by (simp add: PERIODS_nth year_eval date_eval utc2026_def)
  have b2: "baseline utc2026 [1793059200] [Num (Fin 0)] [Num (Fin 5)] (PERIODS ! 0)
      = Some (Num (Fin 0), Num (Fin 5))"
    by (simp add: PERIODS_nth scan_eval utc2026_def)
  from b1 skipped_periods_omitted [where e = utc2026 and ts = ?ts and ps = ?ps and rs = ?ps
      and p = "PERIODS ! 5" and amt = 1000 and cur = "Num (Fin 150)" and pl = PERIODS
      and out = ?out]
    sample_results
  have 1: "periodResult utc2026 (Fin 1000) ?ts ?ps ?ps (Num (Fin 150)) (PERIODS ! 5) = Inr None"
    and 3: "subseq (map period ?out) (map label PERIODS)"
    by blast+
  from b2 skipped_periods_omitted [where e = utc2026 and ts = "[1793059200]"
      and ps = "[Num (Fin 0)]" and rs = "[Num (Fin 5)]" and rawB = "Num (Fin 5)"
      and p = "PERIODS ! 0" and amt = 1000 and cur = "Num (Fin 5)"]
  have 2: "periodResult utc2026 (Fin 1000) [1793059200] [Num (Fin 0)] [Num (Fin 5)]
      (Num (Fin 5)) (PERIODS ! 0) = Inr None"
    by blast
  have 4: "length ?out = 5" "length ?out < length PERIODS"
    by (simp_all add: PERIODS_def)
  from 1 2 3 4 sample_results show ?thesis by blast
qed

text \<open>
  The claim as stated, that no division producing an infinity reaches a result, fails: the
  test of line 117 lets every baseline other than zero pass, and the double quotient
  overflows. With an investment of \<open>2 ^ 1023\<close> (the text \<open>8.98846567431158e307\<close> in the
  input field) and a price of 0.5 the emitted \<open>shares\<close> is the text \<open>Infinity\<close>.
\<close>

theorem quotient_overflows_to_infinity:
  "truthy (Num (Fin (1 / 2)))
   \<and> periodResult utc2026 (Fin (2 ^ 1023)) [1793059200, 1793664000]
       [Num (Fin (1 / 2)), Num (Fin (1 / 2))] [Num (Fin (1 / 2)), Num (Fin (1 / 2))]
       (lastPrice [Num (Fin (1 / 2)), Num (Fin (1 / 2))]) (PERIODS ! 0) =
     Inr (Some \<lparr>period = label (PERIODS ! 0), pastPrice = ''0.50'', shares = ''Infinity'',
       currentValue = ''Infinity'', profit = ''Infinity'', profitRate = ''Infinity'',
       isProfit = True, isYearAvg = False\<rparr>)"
  by (simp add: PERIODS_nth scan_eval utc2026_def result_eval toFixed_eval lastPrice_def)

section \<open>The displayed baseline\<close>

lemma scenario_average:
  assumes "map (\<lambda>i. (elemAt ps i, elemAt rs i)) (qualifying e ts ps rs y) =
             [(Num (Fin 10), Num (Fin 11)), (Num (Fin 20), Num (Fin 21)),
              (Num (Fin 30), Num (Fin 31))]"
  shows "getYearAveragePrice e ts ps rs y = Some (Fin 20, Fin 21)"
proof -
  let ?q = "qualifying e ts ps rs y"
  from assms have "map fst (map (\<lambda>i. (elemAt ps i, elemAt rs i)) ?q)
      = [Num (Fin 10), Num (Fin 20), Num (Fin 30)]"
    and "map snd (map (\<lambda>i. (elemAt ps i, elemAt rs i)) ?q)
      = [Num (Fin 11), Num (Fin 21), Num (Fin 31)]"
    by simp_all
  then have a: "map (elemAt ps) ?q = [Num (Fin 10), Num (Fin 20), Num (Fin 30)]"
    and r: "map (elemAt rs) ?q = [Num (Fin 11), Num (Fin 21), Num (Fin 31)]"
    by (simp_all add: comp_def)
  from a have l: "length ?q = 3"
  proof -
    have "length (map (elemAt ps) ?q) = 3" unfolding a by simp
    then show ?thesis by simp
  qed
  then have ne: "?q \<noteq> []" by auto
  show ?thesis
    unfolding getYearAveragePrice_eq Let_def a r l using ne
    by (simp add: sumValues_def round_eval)
qed

lemma qualifying_inYear:
  assumes pairs: "\<forall>i<length ts. inYear e y ts i \<longrightarrow> truthy (elemAt ps i) \<and> truthy (elemAt rs i)"
    and early: "\<forall>i<length ts. inYear e y ts i \<longrightarrow> num_ge (yearEnd e y) (Fin (real_of_int (ts ! i)))"
  shows "qualifying e ts ps rs y = filter (inYear e y ts) [0..<length ts]"
  unfolding qualifying_def
proof (rule filter_cong [OF refl])
  fix i assume "i \<in> set [0..<length ts]"
  then have i: "i < length ts" by simp
  show "qualifies ts ps rs (yearStart e y) (yearEnd e y) i = inYear e y ts i"
    using pairs [rule_format, OF i] early [rule_format, OF i]
    by (auto simp: qualifies_def inYear_def intro: num_ge_later)
qed

text \<open>
  C2, as amended. In every emitted result the field \<open>pastPrice\<close> is the raw baseline price
  printed with two decimals (\<^verbatim>\<open>toFixed(2)\<close>), whatever the adjusted baseline is, and the
  adjusted baseline enters the implied shares, the double quotient
  \<open>investment / adjusted baseline\<close> printed with four decimals. For a calendar-year period
  whose calendar year, from 1 January 00:00 to 31 December 23:59:59, holds exactly three
  points, with the adjusted prices 10, 20, 30 and the raw prices 11, 21, 31 and none of them
  later than the first instant of 31 December, the field \<open>pastPrice\<close> is \<open>21.00\<close> and
  \<open>shares\<close> is the double quotient \<open>investment / 20\<close> printed with four decimals. Nothing is
  said on a year with a point later on 31 December.
\<close>

theorem past_price_is_raw_baseline:
  "(baseline e ts ps rs p = Some (a, Num b) \<and> truthy a \<longrightarrow>
      (\<exists>r. periodResult e amt ts ps rs cur p = Inr (Some r)
         \<and> pastPrice r = toFixed b 2
         \<and> shares r = toFixed (num_div amt (ToNumber a)) 4))
   \<and> (useYearAvg p
        \<and> map (\<lambda>i. (elemAt ps i, elemAt rs i)) (filter (inYear e (years p) ts) [0..<length ts]) =
             [(Num (Fin 10), Num (Fin 11)), (Num (Fin 20), Num (Fin 21)),
              (Num (Fin 30), Num (Fin 31))]
        \<and> (\<forall>i<length ts. inYear e (years p) ts i \<longrightarrow>
              num_ge (yearEnd e (years p)) (Fin (real_of_int (ts ! i)))) \<longrightarrow>
      (\<exists>r. periodResult e (Fin x) ts ps rs cur p = Inr (Some r)
         \<and> pastPrice r = ''21.00''
         \<and> shares r = toFixed (num_div (Fin x) (Fin 20)) 4
         \<and> num_div (Fin x) (Fin 20) = roundDouble (x / 20)))"
proof (intro conjI impI)
  assume "baseline e ts ps rs p = Some (a, Num b) \<and> truthy a"
  then show "\<exists>r. periodResult e amt ts ps rs cur p = Inr (Some r)
         \<and> pastPrice r = toFixed b 2
         \<and> shares r = toFixed (num_div amt (ToNumber a)) 4"
    by (simp add: periodResult_emits)
next
  let ?y = "years p"
  let ?in = "filter (inYear e ?y ts) [0..<length ts]"
  assume h: "useYearAvg p
        \<and> map (\<lambda>i. (elemAt ps i, elemAt rs i)) ?in =
             [(Num (Fin 10), Num (Fin 11)), (Num (Fin 20), Num (Fin 21)),
              (Num (Fin 30), Num (Fin 31))]
        \<and> (\<forall>i<length ts. inYear e ?y ts i \<longrightarrow>
              num_ge (yearEnd e ?y) (Fin (real_of_int (ts ! i))))"
  have tr: "truthy (elemAt ps i) \<and> truthy (elemAt rs i)"
    if "i < length ts" "inYear e ?y ts i" for i
  proof -
    from that have "i \<in> set ?in" by simp
    then have "(elemAt ps i, elemAt rs i) \<in> set (map (\<lambda>i. (elemAt ps i, elemAt rs i)) ?in)"
      by force
    with h have "(elemAt ps i, elemAt rs i) \<in> set [(Num (Fin 10), Num (Fin 11)),
        (Num (Fin 20), Num (Fin 21)), (Num (Fin 30), Num (Fin 31))]"
      by simp
    then show ?thesis by auto
  qed
  have "qualifying e ts ps rs ?y = ?in"
    by (rule qualifying_inYear) (use h tr in blast)+
  with h have "getYearAveragePrice e ts ps rs ?y = Some (Fin 20, Fin 21)"
    by (simp add: scenario_average)
  with h have b: "baseline e ts ps rs p = Some (Num (Fin 20), Num (Fin 21))"
    by (simp add: baseline_def)
  have t: "truthy (Num (Fin 20))" by simp
  have f: "toFixed (Fin 21) 2 = ''21.00''" by (simp add: toFixed_eval)
  show "\<exists>r. periodResult e (Fin x) ts ps rs cur p = Inr (Some r)
         \<and> pastPrice r = ''21.00''
         \<and> shares r = toFixed (num_div (Fin x) (Fin 20)) 4
         \<and> num_div (Fin x) (Fin 20) = roundDouble (x / 20)"
    by (simp add: periodResult_emits [OF b t] f del: toFixed.simps)
qed

theorem past_price_is_raw_baseline_witness:
  "(\<exists>r. periodResult utc2026 (Fin 1000) [1704153600, 1719792000, 1733011200, 1793664000]
          [Num (Fin 10), Num (Fin 20), Num (Fin 30), Num (Fin 40)]
          [Num (Fin 11), Num (Fin 21), Num (Fin 31), Num (Fin 41)] (Num (Fin 41)) (PERIODS ! 5)
        = Inr (Some r)
      \<and> pastPrice r = ''21.00'' \<and> shares r = ''50.0000'')
   \<and> (\<exists>r. periodResult utc2026 (Fin 1000) [1793059200] [Num (Fin 20)] [Num (Fin 21)]
          (Num (Fin 21)) (PERIODS ! 0) = Inr (Some r)
      \<and> pastPrice r = ''21.00'' \<and> shares r = ''50.0000'')"
proof -
  let ?ts = "[1704153600, 1719792000, 1733011200, 1793664000 :: int]"
  let ?ps = "[Num (Fin 10), Num (Fin 20), Num (Fin 30), Num (Fin 40)]"
  let ?rs = "[Num (Fin 11), Num (Fin 21), Num (Fin 31), Num (Fin 41)]"
  have "useYearAvg (PERIODS ! 5)
        \<and> map (\<lambda>i. (elemAt ?ps i, elemAt ?rs i))
             (filter (inYear utc2026 (years (PERIODS ! 5)) ?ts) [0..<length ?ts]) =
             [(Num (Fin 10), Num (Fin 11)), (Num (Fin 20), Num (Fin 21)),
              (Num (Fin 30), Num (Fin 31))]
        \<and> (\<forall>i<length ?ts. inYear utc2026 (years (PERIODS ! 5)) ?ts i \<longrightarrow>
              num_ge (yearEnd utc2026 (years (PERIODS ! 5))) (Fin (real_of_int (?ts ! i))))"
    by (simp add: PERIODS_nth inYear_def elemAt_def window_2024 less_Suc_eq
        numeral_eq_Suc [of "Num.Bit0 (Num.Bit0 Num.One)"])
  from past_price_is_raw_baseline [where e = utc2026 and ts = ?ts and ps = ?ps
      and rs = ?rs and p = "PERIODS ! 5" and x = 1000 and cur = "Num (Fin 41)",
      THEN conjunct2, THEN mp, OF this]
  obtain r where "periodResult utc2026 (Fin 1000) ?ts ?ps ?rs (Num (Fin 41)) (PERIODS ! 5)
        = Inr (Some r)" "pastPrice r = ''21.00''"
      "shares r = toFixed (num_div (Fin 1000) (Fin 20)) 4"
    by blast
  then have 1: "\<exists>r. periodResult utc2026 (Fin 1000) ?ts ?ps ?rs (Num (Fin 41)) (PERIODS ! 5)
        = Inr (Some r) \<and> pastPrice r = ''21.00'' \<and> shares r = ''50.0000''"
    by (simp add: toFixed_eval)
  have "baseline utc2026 [1793059200] [Num (Fin 20)] [Num (Fin 21)] (PERIODS ! 0)
      = Some (Num (Fin 20), Num (Fin 21)) \<and> truthy (Num (Fin 20))"
    by (simp add: PERIODS_nth scan_eval utc2026_def)
  from past_price_is_raw_baseline [where amt = "Fin 1000" and cur = "Num (Fin 21)",
      THEN conjunct1, THEN mp, OF this]
  obtain r' where "periodResult utc2026 (Fin 1000) [1793059200] [Num (Fin 20)] [Num (Fin 21)]
        (Num (Fin 21)) (PERIODS ! 0) = Inr (Some r')" "pastPrice r' = toFixed (Fin 21) 2"
      "shares r' = toFixed (num_div (Fin 1000) (ToNumber (Num (Fin 20)))) 4"
    by blast
  then have 2: "\<exists>r. periodResult utc2026 (Fin 1000) [1793059200] [Num (Fin 20)] [Num (Fin 21)]
        (Num (Fin 21)) (PERIODS ! 0) = Inr (Some r)
      \<and> pastPrice r = ''21.00'' \<and> shares r = ''50.0000''"
    by (simp add: toFixed_eval)
  from 1 2 show ?thesis by blast
qed

text \<open>
  The claim as stated, that \<open>pastPrice\<close> is the raw baseline price itself, fails: for a raw
  baseline of 21.4375 the field is \<open>21.44\<close>.
\<close>

theorem past_price_is_rounded:
  "baseline utc2026 [1793059200, 1793664000] [Num (Fin 20), Num (Fin 30)]
     [Num (Fin (343 / 16)), Num (Fin 30)] (PERIODS ! 0)
     = Some (Num (Fin 20), Num (Fin (343 / 16)))
   \<and> periodResult utc2026 (Fin 1000) [1793059200, 1793664000] [Num (Fin 20), Num (Fin 30)]
       [Num (Fin (343 / 16)), Num (Fin 30)] (lastPrice [Num (Fin (343 / 16)), Num (Fin 30)])
       (PERIODS ! 0) =
     Inr (Some \<lparr>period = label (PERIODS ! 0), pastPrice = ''21.44'', shares = ''50.0000'',
       currentValue = ''1500.00'', profit = ''500.00'', profitRate = ''50.00'',
       isProfit = True, isYearAvg = False\<rparr>)
   \<and> (343 :: real) / 16 \<noteq> 2144 / 100"
  by (simp add: PERIODS_nth scan_eval utc2026_def result_eval toFixed_eval lastPrice_def)

section \<open>A zero investment\<close>

lemma periodResult_isl_amount:
  "isl (periodResult e amt ts ps rs cur p) = isl (periodResult e amt' ts ps rs cur p)"
  by (auto simp: periodResult_def makeResult_def Let_def split: option.splits sum.splits)

lemma periodResults_isl_amount:
  "isl (periodResults e amt ts ps rs cur pl) = isl (periodResults e amt' ts ps rs cur pl)"
proof -
  have "isl (periodResults e a ts ps rs cur pl)
      = isl (mapThrow (periodResult e a ts ps rs cur) pl)" for a
    by (simp add: periodResults_def split: sum.splits)
  then show ?thesis
    using periodResult_isl_amount [of e amt ts ps rs cur _ amt']
    by (simp add: mapThrow_isl)
qed

lemma fetchStockData_isl_amount:
  "isl (fetchStockData e amt tso adj rso) = isl (fetchStockData e amt' tso adj rso)"
proof (cases rso)
  case None
  then show ?thesis by (simp add: fetchStockData_def)
next
  case (Some rawPrices)
  show ?thesis
  proof (cases tso)
    case None
    then show ?thesis using Some by (simp add: fetchStockData_def)
  next
    case (Some timestamps)
    let ?prices = "case adj of None \<Rightarrow> rawPrices | Some a \<Rightarrow> a"
    let ?cur = "lastPrice rawPrices"
    have "isl (fetchStockData e a tso adj rso)
        = (isl (periodResults e a timestamps ?prices rawPrices ?cur PERIODS)
           \<or> isl (callToFixed ?cur 2))" for a
      using Some \<open>rso = Some rawPrices\<close>
      by (simp add: fetchStockData_def Let_def split: sum.splits)
    then show ?thesis
      using periodResults_isl_amount [of e amt timestamps ?prices rawPrices ?cur PERIODS amt']
      by simp
  qed
qed

lemma toFixed_zero_4: "toFixed (Fin 0) 4 = ''0.0000''"
  by (simp add: toFixed_eval)

lemma zero_div_truthy: "truthy a \<Longrightarrow> num_div (Fin 0) (ToNumber a) = Fin 0"
  by (cases a rule: truthy.cases) (auto simp: roundDouble_zero)

text \<open>
  C9. With an investment of zero, every period with a resolvable baseline (a truthy
  adjusted price and a raw price that is a number), and so every period that emits a result
  for some other investment, emits a result whose \<open>shares\<close> is \<open>0.0000\<close>; and the whole
  evaluation fails for a zero investment exactly when it fails for any other one.
\<close>

theorem zero_investment_emits:
  "(baseline e ts ps rs p = Some (a, Num b) \<and> truthy a \<longrightarrow>
      (\<exists>r. periodResult e (Fin 0) ts ps rs cur p = Inr (Some r) \<and> shares r = ''0.0000''))
   \<and> (periodResult e (Fin amt) ts ps rs cur p = Inr (Some r') \<longrightarrow>
      (\<exists>r. periodResult e (Fin 0) ts ps rs cur p = Inr (Some r) \<and> shares r = ''0.0000''))
   \<and> isl (fetchStockData e (Fin 0) tso adj rso) = isl (fetchStockData e (Fin amt) tso adj rso)"
proof (intro conjI impI)
  assume "baseline e ts ps rs p = Some (a, Num b) \<and> truthy a"
  then show "\<exists>r. periodResult e (Fin 0) ts ps rs cur p = Inr (Some r) \<and> shares r = ''0.0000''"
    by (simp add: periodResult_emits zero_div_truthy toFixed_zero_4 del: toFixed.simps)
next
  assume "periodResult e (Fin amt) ts ps rs cur p = Inr (Some r')"
  from periodResult_Some [OF this] obtain a b
    where "baseline e ts ps rs p = Some (a, Num b)" "truthy a" by blast
  then show "\<exists>r. periodResult e (Fin 0) ts ps rs cur p = Inr (Some r) \<and> shares r = ''0.0000''"
    by (simp add: periodResult_emits zero_div_truthy toFixed_zero_4 del: toFixed.simps)
next
  show "isl (fetchStockData e (Fin 0) tso adj rso) = isl (fetchStockData e (Fin amt) tso adj rso)"
    by (rule fetchStockData_isl_amount)
qed

theorem zero_investment_emits_witness:
  "(\<exists>r. periodResult utc2026 (Fin 0) [1793059200, 1793664000] [Num (Fin 100), Num (Fin 150)]
     [Num (Fin 100), Num (Fin 150)] (Num (Fin 150)) (PERIODS ! 0) = Inr (Some r)
      \<and> shares r = ''0.0000'')
   \<and> \<not> isl (fetchStockData utc2026 (Fin 0) (Some [1793059200, 1793664000])
        (Some [Num (Fin 100), Num (Fin 150)]) (Some [Num (Fin 100), Num (Fin 150)]))"
proof -
  let ?ts = "[1793059200, 1793664000 :: int]"
  let ?ps = "[Num (Fin 100), Num (Fin 150)]"
  note th = zero_investment_emits [where e = utc2026 and ts = ?ts and ps = ?ps and rs = ?ps
      and p = "PERIODS ! 0" and cur = "Num (Fin 150)" and amt = 1000 and tso = "Some ?ts"
      and adj = "Some ?ps" and rso = "Some ?ps"]
  have "baseline utc2026 ?ts ?ps ?ps (PERIODS ! 0) = Some (Num (Fin 100), Num (Fin 100))
     \<and> truthy (Num (Fin 100))"
    by (simp add: PERIODS_nth scan_eval utc2026_def)
  from th [THEN conjunct1, THEN mp, OF this]
  have 1: "\<exists>r. periodResult utc2026 (Fin 0) ?ts ?ps ?ps (Num (Fin 150)) (PERIODS ! 0)
      = Inr (Some r) \<and> shares r = ''0.0000''" .
  from th [THEN conjunct2, THEN conjunct1, THEN mp, OF sample_period_result]
  have 2: "\<exists>r. periodResult utc2026 (Fin 0) ?ts ?ps ?ps (Num (Fin 150)) (PERIODS ! 0)
      = Inr (Some r) \<and> shares r = ''0.0000''" .
  have "\<not> isl (fetchStockData utc2026 (Fin 1000) (Some ?ts) (Some ?ps) (Some ?ps))"
    using sample_results by (simp add: fetchStockData_def lastPrice_def elemAt_def)
  with th [THEN conjunct2, THEN conjunct2]
  have 3: "\<not> isl (fetchStockData utc2026 (Fin 0) (Some ?ts) (Some ?ps) (Some ?ps))"
    by simp
  from 1 2 3 show ?thesis by blast
qed

section \<open>Exceptions of the callback\<close>

lemma baseline_year_raw:
  "useYearAvg p \<Longrightarrow> baseline e ts ps rs p = Some (a, b) \<Longrightarrow> \<exists>n. b = Num n"
  by (auto simp: baseline_def split: option.splits)

lemma periodResult_throws:
  "periodResult e amt ts ps rs cur p = Inl TypeError \<longleftrightarrow>
     (\<exists>a b. baseline e ts ps rs p = Some (a, b) \<and> truthy a \<and> (b = Null \<or> b = Undefined))"
proof (cases "baseline e ts ps rs p")
  case None
  then show ?thesis by (simp add: periodResult_def)
next
  case (Some ab)
  obtain a b where ab: "ab = (a, b)" by (cases ab)
  show ?thesis
    using Some ab by (cases b) (auto simp: periodResult_def makeResult_def Let_def)
qed

text \<open>
  C10, as amended. The callback throws for a period exactly when the adjusted price of its
  baseline is truthy and the raw price of its baseline is \<^verbatim>\<open>null\<close> or \<^verbatim>\<open>undefined\<close>.
  So when every index with a truthy adjusted price holds a raw price that is a number, no
  period throws, and the evaluation of any list of periods (all of the nearest-date periods
  among them) returns.
\<close>

theorem raw_price_unchecked:
  "(periodResult e amt ts ps rs cur p = Inl TypeError \<longleftrightarrow>
      (\<exists>a b. baseline e ts ps rs p = Some (a, b) \<and> truthy a \<and> (b = Null \<or> b = Undefined)))
   \<and> ((\<forall>i. truthy (elemAt ps i) \<longrightarrow> (\<exists>n. elemAt rs i = Num n)) \<longrightarrow>
        (\<forall>q. periodResult e amt ts ps rs cur q \<noteq> Inl TypeError)
        \<and> (\<exists>out. periodResults e amt ts ps rs cur pl = Inr out))"
proof (intro conjI impI)
  show "periodResult e amt ts ps rs cur p = Inl TypeError \<longleftrightarrow>
      (\<exists>a b. baseline e ts ps rs p = Some (a, b) \<and> truthy a \<and> (b = Null \<or> b = Undefined))"
    by (rule periodResult_throws)
next
  assume pre: "\<forall>i. truthy (elemAt ps i) \<longrightarrow> (\<exists>n. elemAt rs i = Num n)"
  have no: "periodResult e amt ts ps rs cur q \<noteq> Inl TypeError" for q
  proof
    assume "periodResult e amt ts ps rs cur q = Inl TypeError"
    then obtain a b where ab: "baseline e ts ps rs q = Some (a, b)" "truthy a"
        "b = Null \<or> b = Undefined"
      unfolding periodResult_throws by blast
    show False
    proof (cases "useYearAvg q")
      case True
      from baseline_year_raw [OF True ab(1)] ab(3) show False by auto
    next
      case False
      with ab(1) obtain k where "a = elemAt ps k" "b = elemAt rs k"
        by (auto simp: baseline_def Let_def)
      with pre ab(2,3) show False by auto
    qed
  qed
  then show "\<forall>q. periodResult e amt ts ps rs cur q \<noteq> Inl TypeError" by blast
  have "\<not> isl (periodResult e amt ts ps rs cur q)" for q
    using no [of q] by (cases "periodResult e amt ts ps rs cur q") (auto intro: error.exhaust)
  then have "\<not> isl (mapThrow (periodResult e amt ts ps rs cur) pl)"
    by (simp add: mapThrow_isl)
  then show "\<exists>out. periodResults e amt ts ps rs cur pl = Inr out"
    by (auto simp: periodResults_def split: sum.splits)
qed

theorem raw_price_unchecked_witness:
  "\<exists>out. periodResults utc2026 (Fin 1000) [1793059200, 1793664000]
     [Num (Fin 100), Null] [Num (Fin 100), Num (Fin 150)] (Num (Fin 150)) PERIODS = Inr out"
proof -
  have "\<forall>i. truthy (elemAt [Num (Fin 100), Null] i)
      \<longrightarrow> (\<exists>n. elemAt [Num (Fin 100), Num (Fin 150)] i = Num n)"
    by (simp add: elemAt_def nth_Cons split: nat.splits)
  from raw_price_unchecked [THEN conjunct2, THEN mp, OF this, THEN conjunct2]
  show ?thesis .
qed

text \<open>
  The claim as stated also says that the evaluation completes only under that precondition.
  This fails: a point with an adjusted price and no raw price that no period selects does not
  make the evaluation throw.
\<close>

theorem unselected_point_does_not_throw:
  "truthy (elemAt [Num (Fin 5), Num (Fin 5)] 0) \<and> elemAt [Null, Num (Fin 5)] 0 = Null
   \<and> \<not> isl (periodResults utc2026 (Fin 1000) [1500000000, 1793664000]
        [Num (Fin 5), Num (Fin 5)] [Null, Num (Fin 5)] (Num (Fin 5)) PERIODS)
   \<and> \<not> isl (fetchStockData utc2026 (Fin 1000) (Some [1500000000, 1793664000])
        (Some [Num (Fin 5), Num (Fin 5)]) (Some [Null, Num (Fin 5)]))"
  by (simp add: fetchStockData_def lastPrice_def PERIODS_def scan_eval getYearAveragePrice_def
      yearStep_def qualifies_def date_eval utc2026_def result_eval Let_def del: toFixed.simps)

section \<open>Missing input\<close>

lemma error_unique: "(x :: error) = TypeError"
  by (cases x) simp

lemma Inl_TypeError: "isl r \<Longrightarrow> (r :: error + 'a) = Inl TypeError"
  by (cases r) (simp_all add: error_unique)

lemma fetchStockData_no_current:
  assumes "callToFixed (lastPrice rawPrices) 2 = Inl TypeError"
  shows "fetchStockData e amt tso adj (Some rawPrices) = Inl TypeError"
proof -
  have "isl (fetchStockData e amt tso adj (Some rawPrices))"
    using assms by (simp add: fetchStockData_def Let_def split: option.splits sum.splits)
  then show ?thesis by (rule Inl_TypeError)
qed

text \<open>
  C6, as amended. When the raw-price array is missing, when the timestamp array is
  missing, or when the current price (the last element of the raw-price array) is missing,
  because the array is empty or its last element is \<^verbatim>\<open>null\<close> or \<^verbatim>\<open>undefined\<close>, the
  evaluation ends with the one exception and gives no results. The lengths of the arrays
  are not compared.
\<close>

theorem missing_data_aborts:
  "fetchStockData e amt tso adj None = Inl TypeError
   \<and> fetchStockData e amt None adj rso = Inl TypeError
   \<and> (rawPrices = [] \<or> last rawPrices = Null \<or> last rawPrices = Undefined \<longrightarrow>
        fetchStockData e amt tso adj (Some rawPrices) = Inl TypeError)"
proof (intro conjI impI)
  show "fetchStockData e amt tso adj None = Inl TypeError"
    by (simp add: fetchStockData_def)
  show "fetchStockData e amt None adj rso = Inl TypeError"
    by (cases rso) (simp_all add: fetchStockData_def)
  assume a: "rawPrices = [] \<or> last rawPrices = Null \<or> last rawPrices = Undefined"
  have "callToFixed (lastPrice rawPrices) 2 = Inl TypeError"
  proof (cases "rawPrices = []")
    case True
    then show ?thesis by (simp add: lastPrice_def)
  next
    case False
    then have "lastPrice rawPrices = last rawPrices"
      by (simp add: lastPrice_def elemAt_def last_conv_nth)
    with a False show ?thesis by auto
  qed
  then show "fetchStockData e amt tso adj (Some rawPrices) = Inl TypeError"
    by (rule fetchStockData_no_current)
qed

theorem missing_data_aborts_witness:
  "fetchStockData utc2026 (Fin 1000) (Some [1793059200, 1793664000])
     (Some [Num (Fin 100), Num (Fin 150)]) (Some [Num (Fin 100), Null]) = Inl TypeError"
proof -
  have "[Num (Fin 100), Null] = [] \<or> last [Num (Fin 100), Null] = Null
      \<or> last [Num (Fin 100), Null] = Undefined"
    by simp
  from missing_data_aborts [THEN conjunct2, THEN conjunct2, THEN mp, OF this]
  show ?thesis .
qed

text \<open>
  The claim as stated, that arrays of different lengths make the evaluation fail, does not
  hold: with two timestamps, one adjusted price and two raw prices the evaluation returns
  the results of the five nearest-date periods.
\<close>

theorem mismatched_lengths_not_detected:
  "length [1793059200, 1793664000 :: int] \<noteq> length [Num (Fin 100)]
   \<and> fetchStockData utc2026 (Fin 1000) (Some [1793059200, 1793664000])
       (Some [Num (Fin 100)]) (Some [Num (Fin 100), Num (Fin 150)]) =
     Inr \<lparr>currentPrice = ''150.00'', investment = Fin 1000,
          periods = map sampleResult (map label (take 5 PERIODS))\<rparr>"
  by (simp add: fetchStockData_def lastPrice_def PERIODS_def scan_eval getYearAveragePrice_def yearStep_def
      qualifies_def date_eval utc2026_def result_eval toFixed_eval sampleResult_def)

section \<open>A response without adjusted prices\<close>

lemma baseline_same_arrays:
  "baseline e ts rs rs p = Some (a, b) \<Longrightarrow> a = b"
  by (auto simp: baseline_def getYearAveragePrice_eq Let_def split: if_splits)

text \<open>
  C7. When the response has no adjusted prices, the program runs exactly as on a response
  whose adjusted prices are the raw prices. Then the adjusted baseline of every period, of
  either strategy, is its raw baseline; no period throws; and a period that emits a result
  has its \<open>shares\<close> computed from that raw value, which is also the one displayed.
\<close>

theorem adjusted_falls_back_to_raw:
  "fetchStockData e amt tso None (Some rs) = fetchStockData e amt tso (Some rs) (Some rs)
   \<and> (baseline e ts rs rs p = Some (a, b) \<longrightarrow> a = b)
   \<and> periodResult e amt ts rs rs cur p \<noteq> Inl TypeError
   \<and> (\<exists>out. periodResults e amt ts rs rs cur pl = Inr out)
   \<and> (periodResult e amt ts rs rs cur p = Inr (Some r) \<longrightarrow>
        (\<exists>n. baseline e ts rs rs p = Some (Num n, Num n)
           \<and> shares r = toFixed (num_div amt n) 4 \<and> pastPrice r = toFixed n 2))"
proof (intro conjI impI)
  show "fetchStockData e amt tso None (Some rs) = fetchStockData e amt tso (Some rs) (Some rs)"
    by (simp add: fetchStockData_def)
  show "a = b" if "baseline e ts rs rs p = Some (a, b)"
    using that by (rule baseline_same_arrays)
  have no: "periodResult e amt ts rs rs cur q \<noteq> Inl TypeError" for q
  proof
    assume "periodResult e amt ts rs rs cur q = Inl TypeError"
    then obtain a b where ab: "baseline e ts rs rs q = Some (a, b)" "truthy a"
        "b = Null \<or> b = Undefined"
      unfolding periodResult_throws by blast
    from baseline_same_arrays [OF ab(1)] ab(2,3) show False by auto
  qed
  then show "periodResult e amt ts rs rs cur p \<noteq> Inl TypeError" .
  have "\<not> isl (periodResult e amt ts rs rs cur q)" for q
    using no [of q] by (cases "periodResult e amt ts rs rs cur q") (auto intro: error.exhaust)
  then have "\<not> isl (mapThrow (periodResult e amt ts rs rs cur) pl)"
    by (simp add: mapThrow_isl)
  then show "\<exists>out. periodResults e amt ts rs rs cur pl = Inr out"
    by (auto simp: periodResults_def split: sum.splits)
  show "\<exists>n. baseline e ts rs rs p = Some (Num n, Num n)
           \<and> shares r = toFixed (num_div amt n) 4 \<and> pastPrice r = toFixed n 2"
    if "periodResult e amt ts rs rs cur p = Inr (Some r)"
  proof -
    from periodResult_Some [OF that] obtain a n where an:
      "baseline e ts rs rs p = Some (a, Num n)" "pastPrice r = toFixed n 2"
      "shares r = toFixed (num_div amt (ToNumber a)) 4"
      by blast
    from baseline_same_arrays [OF an(1)] have "a = Num n" .
    with an show ?thesis by simp
  qed
qed

theorem adjusted_falls_back_to_raw_witness:
  "fetchStockData utc2026 (Fin 1000) (Some [1793059200, 1793664000]) None
     (Some [Num (Fin 100), Num (Fin 150)]) =
   Inr \<lparr>currentPrice = ''150.00'', investment = Fin 1000,
        periods = map sampleResult (map label (take 5 PERIODS))\<rparr>
   \<and> baseline utc2026 [1793059200, 1793664000] [Num (Fin 100), Num (Fin 150)]
       [Num (Fin 100), Num (Fin 150)] (PERIODS ! 0) = Some (Num (Fin 100), Num (Fin 100))
   \<and> toFixed (num_div (Fin 1000) (Fin 100)) 4 = ''10.0000''"
proof -
  let ?ts = "[1793059200, 1793664000 :: int]"
  let ?rs = "[Num (Fin 100), Num (Fin 150)]"
  note th = adjusted_falls_back_to_raw [where e = utc2026 and amt = "Fin 1000"
      and tso = "Some ?ts" and rs = ?rs and ts = ?ts and p = "PERIODS ! 0"
      and a = "Num (Fin 100)" and b = "elemAt ?rs 0" and cur = "Num (Fin 150)"
      and r = "sampleResult (label (PERIODS ! 0))"]
  have full: "fetchStockData utc2026 (Fin 1000) (Some ?ts) (Some ?rs) (Some ?rs) =
      Inr \<lparr>currentPrice = ''150.00'', investment = Fin 1000,
           periods = map sampleResult (map label (take 5 PERIODS))\<rparr>"
    using sample_results by (simp add: fetchStockData_def lastPrice_def elemAt_def toFixed_eval)
  have b: "baseline utc2026 ?ts ?rs ?rs (PERIODS ! 0) = Some (Num (Fin 100), elemAt ?rs 0)"
    by (simp add: PERIODS_nth scan_eval utc2026_def)
  from th b have eq: "Num (Fin 100) = elemAt ?rs 0" by blast
  from th sample_period_result obtain n where
    n: "baseline utc2026 ?ts ?rs ?rs (PERIODS ! 0) = Some (Num n, Num n)"
      "shares (sampleResult (label (PERIODS ! 0))) = toFixed (num_div (Fin 1000) n) 4"
    by blast
  from n(1) b eq have "n = Fin 100" by simp
  with n(2) have "toFixed (num_div (Fin 1000) (Fin 100)) 4 = ''10.0000''"
    by (simp add: sampleResult_def del: toFixed.simps)
  with b eq th full show ?thesis by simp
qed

section \<open>The window of the yearly average\<close>

lemma getYearAveragePrice_mean:
  "getYearAveragePrice e ts ps rs y =
     (if qualifying e ts ps rs y = [] then None
      else Some (meanOf (map (elemAt ps) (qualifying e ts ps rs y)),
                 meanOf (map (elemAt rs) (qualifying e ts ps rs y))))"
  by (simp add: getYearAveragePrice_eq meanOf_def Let_def)

lemma qualifying_set:
  "i \<in> set (qualifying e ts ps rs y) \<longleftrightarrow>
     i < length ts \<and> qualifies ts ps rs (yearStart e y) (yearEnd e y) i"
  by (auto simp: qualifying_def)

lemma qualifying_sorted: "sorted (qualifying e ts ps rs y) \<and> distinct (qualifying e ts ps rs y)"
  by (simp add: qualifying_def sorted_wrt_filter)

text \<open>
  C3, as amended. For a calendar-year period the target year is the current year minus
  \<open>yearsAgo\<close>, and the window starts at \<open>yearStart\<close>, 1 January 00:00 of the target year
  in local time. The baseline is the pair of means, of the adjusted and of the raw prices
  apart, over a set \<open>Q\<close> of points. Every point of \<open>Q\<close> has a truthy adjusted and a truthy
  raw price (numbers other than zero) and a timestamp from \<open>yearStart\<close> to 31 December
  23:59:59 (\<open>yearEnd\<close>, the first instant of 31 December, plus 86399 seconds); and every
  such point with a timestamp up to \<open>yearEnd\<close> is in \<open>Q\<close>. When \<open>Q\<close> is empty the period
  gives no result. Nothing is said on the points of 31 December after its first instant.
\<close>

theorem year_average_over_window:
  "yearStart e (Num (Fin n)) = newDate e (Fin (real_of_int (currentYear e) - n)) 0 1
   \<and> yearEnd e (Num (Fin n)) = newDate e (Fin (real_of_int (currentYear e) - n)) 11 31
   \<and> (\<exists>Q. getYearAveragePrice e ts ps rs y =
            (if Q = [] then None
             else Some (meanOf (map (elemAt ps) Q), meanOf (map (elemAt rs) Q)))
          \<and> sorted Q \<and> distinct Q
          \<and> (\<forall>i\<in>set Q. i < length ts \<and> truthy (elemAt ps i) \<and> truthy (elemAt rs i)
                \<and> num_ge (Fin (real_of_int (ts ! i))) (yearStart e y)
                \<and> num_ge (time_add (yearEnd e y) (Fin 86399)) (Fin (real_of_int (ts ! i))))
          \<and> (\<forall>i<length ts. truthy (elemAt ps i) \<and> truthy (elemAt rs i)
                \<and> num_ge (Fin (real_of_int (ts ! i))) (yearStart e y)
                \<and> num_ge (yearEnd e y) (Fin (real_of_int (ts ! i))) \<longrightarrow> i \<in> set Q))
   \<and> (getYearAveragePrice e ts ps rs (years p) = None \<and> useYearAvg p \<longrightarrow>
        periodResult e amt ts ps rs cur p = Inr None)"
proof (intro conjI)
  show "yearStart e (Num (Fin n)) = newDate e (Fin (real_of_int (currentYear e) - n)) 0 1"
    by (simp add: yearStart_def targetYear_def)
  show "yearEnd e (Num (Fin n)) = newDate e (Fin (real_of_int (currentYear e) - n)) 11 31"
    by (simp add: yearEnd_def targetYear_def)
  let ?Q = "qualifying e ts ps rs y"
  have "getYearAveragePrice e ts ps rs y =
            (if ?Q = [] then None
             else Some (meanOf (map (elemAt ps) ?Q), meanOf (map (elemAt rs) ?Q)))"
    by (rule getYearAveragePrice_mean)
  moreover have "sorted ?Q \<and> distinct ?Q" by (rule qualifying_sorted)
  moreover have "\<forall>i\<in>set ?Q. i < length ts \<and> truthy (elemAt ps i) \<and> truthy (elemAt rs i)
                \<and> num_ge (Fin (real_of_int (ts ! i))) (yearStart e y)
                \<and> num_ge (time_add (yearEnd e y) (Fin 86399)) (Fin (real_of_int (ts ! i)))"
    by (auto simp: qualifying_set qualifies_def intro: num_ge_later)
  moreover have "\<forall>i<length ts. truthy (elemAt ps i) \<and> truthy (elemAt rs i)
                \<and> num_ge (Fin (real_of_int (ts ! i))) (yearStart e y)
                \<and> num_ge (yearEnd e y) (Fin (real_of_int (ts ! i))) \<longrightarrow> i \<in> set ?Q"
    by (auto simp: qualifying_set qualifies_def)
  ultimately show "\<exists>Q. getYearAveragePrice e ts ps rs y =
            (if Q = [] then None
             else Some (meanOf (map (elemAt ps) Q), meanOf (map (elemAt rs) Q)))
          \<and> sorted Q \<and> distinct Q
          \<and> (\<forall>i\<in>set Q. i < length ts \<and> truthy (elemAt ps i) \<and> truthy (elemAt rs i)
                \<and> num_ge (Fin (real_of_int (ts ! i))) (yearStart e y)
                \<and> num_ge (time_add (yearEnd e y) (Fin 86399)) (Fin (real_of_int (ts ! i))))
          \<and> (\<forall>i<length ts. truthy (elemAt ps i) \<and> truthy (elemAt rs i)
                \<and> num_ge (Fin (real_of_int (ts ! i))) (yearStart e y)
                \<and> num_ge (yearEnd e y) (Fin (real_of_int (ts ! i))) \<longrightarrow> i \<in> set Q)"
    by blast
  show "getYearAveragePrice e ts ps rs (years p) = None \<and> useYearAvg p \<longrightarrow>
        periodResult e amt ts ps rs cur p = Inr None"
    by (simp add: periodResult_def baseline_def)
qed
theorem year_average_over_window_witness:
  "getYearAveragePrice utc2026 [1704153600, 1719792000, 1733011200, 1793664000]
      [Num (Fin 10), Num (Fin 20), Num (Fin 30), Num (Fin 40)]
      [Num (Fin 11), Num (Fin 21), Num (Fin 31), Num (Fin 41)] (Num (Fin 2))
     = Some (Fin 20, Fin 21)
   \<and> periodResult utc2026 (Fin 1000) [1793664000] [Num (Fin 40)] [Num (Fin 41)] (Num (Fin 41))
       (PERIODS ! 5) = Inr None"
proof -
  let ?ts = "[1704153600, 1719792000, 1733011200, 1793664000 :: int]"
  let ?ps = "[Num (Fin 10), Num (Fin 20), Num (Fin 30), Num (Fin 40)]"
  let ?rs = "[Num (Fin 11), Num (Fin 21), Num (Fin 31), Num (Fin 41)]"
  let ?y = "Num (Fin 2)"
  from year_average_over_window [where e = utc2026 and ts = ?ts and ps = ?ps and rs = ?rs
      and y = ?y]
  obtain Q where avg: "getYearAveragePrice utc2026 ?ts ?ps ?rs ?y =
            (if Q = [] then None
             else Some (meanOf (map (elemAt ?ps) Q), meanOf (map (elemAt ?rs) Q)))"
    and sd: "sorted Q" "distinct Q"
    and sub: "\<forall>i\<in>set Q. i < length ?ts \<and> truthy (elemAt ?ps i) \<and> truthy (elemAt ?rs i)
                \<and> num_ge (Fin (real_of_int (?ts ! i))) (yearStart utc2026 ?y)
                \<and> num_ge (time_add (yearEnd utc2026 ?y) (Fin 86399)) (Fin (real_of_int (?ts ! i)))"
    and sup: "\<forall>i<length ?ts. truthy (elemAt ?ps i) \<and> truthy (elemAt ?rs i)
                \<and> num_ge (Fin (real_of_int (?ts ! i))) (yearStart utc2026 ?y)
                \<and> num_ge (yearEnd utc2026 ?y) (Fin (real_of_int (?ts ! i))) \<longrightarrow> i \<in> set Q"
    by blast
  from sup [rule_format, of 0] sup [rule_format, of 1] sup [rule_format, of 2]
  have in012: "0 \<in> set Q" "1 \<in> set Q" "2 \<in> set Q"
    by (simp_all add: window_2024 elemAt_def)
  have "i \<in> {0, 1, 2}" if "i \<in> set Q" for i
  proof -
    from sub that have b: "i < 4"
      and w: "num_ge (time_add (yearEnd utc2026 ?y) (Fin 86399)) (Fin (real_of_int (?ts ! i)))"
      by auto
    have "i \<noteq> 3" using w by (auto simp: window_2024)
    with b show ?thesis by auto
  qed
  with in012 have "set Q = set [0, 1, 2 :: nat]" by auto
  with sd have "Q = [0, 1, 2]"
    by (intro sorted_distinct_set_unique) simp_all
  with avg have 1: "getYearAveragePrice utc2026 ?ts ?ps ?rs ?y = Some (Fin 20, Fin 21)"
    by (simp add: meanOf_def sumValues_def elemAt_def round_eval)
  have "getYearAveragePrice utc2026 [1793664000] [Num (Fin 40)] [Num (Fin 41)]
      (years (PERIODS ! 5)) = None \<and> useYearAvg (PERIODS ! 5)"
    by (simp add: PERIODS_nth getYearAveragePrice_def yearStep_def qualifies_def elemAt_def
        window_2024)
  from year_average_over_window [THEN conjunct2, THEN conjunct2, THEN conjunct2, THEN mp,
      OF this]
  have 2: "periodResult utc2026 (Fin 1000) [1793664000] [Num (Fin 40)] [Num (Fin 41)]
      (Num (Fin 41)) (PERIODS ! 5) = Inr None" .
  from 1 2 show ?thesis by simp
qed

text \<open>
  The claim as stated, with every present price taking part, fails: a point in the window
  whose adjusted price is the number zero is left out of both means.
\<close>

theorem zero_price_left_out_of_average:
  "num_ge (Fin 1719792000) (yearStart utc2026 (Num (Fin 2)))
   \<and> num_ge (yearEnd utc2026 (Num (Fin 2))) (Fin 1733011200)
   \<and> getYearAveragePrice utc2026 [1719792000, 1733011200] [Num (Fin 0), Num (Fin 10)]
        [Num (Fin 5), Num (Fin 11)] (Num (Fin 2)) = Some (Fin 10, Fin 11)
   \<and> meanOf [Num (Fin 0), Num (Fin 10)] = Fin 5
   \<and> meanOf [Num (Fin 5), Num (Fin 11)] = Fin 8"
  by (simp add: getYearAveragePrice_def yearStep_def qualifies_def elemAt_def window_2024
      meanOf_def sumValues_def round_eval)

text \<open>
  The end of the window. The program ends the window at \<^verbatim>\<open>new Date(targetYear, 11, 31)\<close>,
  the first instant of 31 December, while its comment at line 95 speaks of the average from
  January to December. So a point of 31 December is left out: of two points at 14:30 UTC on
  30 and on 31 December 2024, with prices 10 and 30, only the first is averaged, and a point
  of 31 December alone gives no result.
\<close>

lemma year_window_ends_before_last_day:
  "yearStart utc2026 (Num (Fin 2)) = Fin 1704067200
   \<and> yearEnd utc2026 (Num (Fin 2)) = Fin 1735603200
   \<and> (1735655400 :: int) \<le> 1735603200 + 86399
   \<and> getYearAveragePrice utc2026 [1735569000, 1735655400] [Num (Fin 10), Num (Fin 30)]
        [Num (Fin 10), Num (Fin 30)] (Num (Fin 2)) = Some (Fin 10, Fin 10)
   \<and> getYearAveragePrice utc2026 [1735655400] [Num (Fin 30)] [Num (Fin 30)] (Num (Fin 2))
        = None
   \<and> periodResult utc2026 (Fin 1000) [1735655400] [Num (Fin 30)] [Num (Fin 30)]
        (Num (Fin 30)) (PERIODS ! 5) = Inr None"
  by (simp add: PERIODS_nth year_eval window_2024 periodResult_def round_eval)

end
